theory Spec2Isabelle
  imports Main "HOL-Library.Char_ord" "HOL-Library.List_Lexorder"
begin

section \<open>The assignment helper (scripts/helper.py)\<close>

text \<open>
  A shallow embedding of the command-line helper. A Python \<open>str\<close> is a \<open>string\<close>
  whose characters stand for code points below 256. Everything outside the process is made
  explicit: the file system is a map from paths to nodes, the lines typed at \<open>input()\<close>
  are a list that is consumed, what \<open>print\<close> writes is a list of messages that grows, and
  the two external programs (git and the Gradle wrapper) are functions of the environment.
  An exception is a value: every command returns an \<open>outcome\<close> together with the world it
  leaves behind.
\<close>

subsection \<open>Python string methods\<close>

definition is_space :: "char \<Rightarrow> bool" where
  \<comment> \<open>the characters \<open>str.strip()\<close> removes, among the code points below 256\<close>
  "is_space c = (let n = (of_char c :: nat) in
     (9 \<le> n \<and> n \<le> 13) \<or> (28 \<le> n \<and> n \<le> 32) \<or> n = 133 \<or> n = 160)"

definition strip :: "string \<Rightarrow> string" where
  "strip s = rev (dropWhile is_space (rev (dropWhile is_space s)))"

definition lower_char :: "char \<Rightarrow> char" where
  "lower_char c = (let n = (of_char c :: nat) in
     if (65 \<le> n \<and> n \<le> 90) \<or> (192 \<le> n \<and> n \<le> 222 \<and> n \<noteq> 215)
     then char_of (n + 32) else c)"

definition lower :: "string \<Rightarrow> string" where
  "lower s = map lower_char s"

definition startswith :: "string \<Rightarrow> string \<Rightarrow> bool" where
  \<comment> \<open>\<open>s.startswith(p)\<close>\<close>
  "startswith s p = (take (length p) s = p)"

definition lstrip_chars :: "string \<Rightarrow> string \<Rightarrow> string" where
  \<comment> \<open>\<open>s.lstrip(chars)\<close>\<close>
  "lstrip_chars s cs = dropWhile (\<lambda>c. c \<in> set cs) s"

fun split_on :: "char \<Rightarrow> string \<Rightarrow> string list" where
  \<comment> \<open>\<open>s.split(c)\<close> for a one-character separator\<close>
  "split_on c [] = [[]]"
| "split_on c (x # xs) =
     (if x = c then [] # split_on c xs
      else (case split_on c xs of [] \<Rightarrow> [[x]] | w # ws \<Rightarrow> (x # w) # ws))"

fun split_max :: "char \<Rightarrow> nat \<Rightarrow> string \<Rightarrow> string list" where
  \<comment> \<open>\<open>s.split(c, n)\<close>: at most \<open>n\<close> cuts, the rest stays whole\<close>
  "split_max c 0 s = [s]"
| "split_max c (Suc n) [] = [[]]"
| "split_max c (Suc n) (x # xs) =
     (if x = c then [] # split_max c n xs
      else (case split_max c (Suc n) xs of [] \<Rightarrow> [[x]] | w # ws \<Rightarrow> (x # w) # ws))"

definition basename :: "string \<Rightarrow> string" where
  \<comment> \<open>\<open>os.path.basename\<close>: what follows the last slash\<close>
  "basename s = rev (takeWhile (\<lambda>c. c \<noteq> CHR ''/'') (rev s))"

function str_nat :: "nat \<Rightarrow> string" where
  "str_nat n = (if n < 10 then [''0123456789'' ! n] else str_nat (n div 10) @ [''0123456789'' ! (n mod 10)])"
  by pat_completeness auto
termination
  by (relation "measure id") auto

declare str_nat.simps [simp del]

definition str_int :: "int \<Rightarrow> string" where
  \<comment> \<open>\<open>str(i)\<close> of an integer\<close>
  "str_int i = (if i < 0 then CHR ''-'' # str_nat (nat (- i)) else str_nat (nat i))"

subsection \<open>Paths (pathlib.Path on POSIX)\<close>

text \<open>
  A path is the list of its parts, as \<open>Path.parts\<close> gives them: an absolute path starts
  with the part \<open>/\<close> (or \<open>//\<close>), empty parts and \<open>.\<close> are dropped when a string is
  parsed, and \<open>..\<close> is kept.
\<close>

type_synonym path = "string list"

definition path_root :: "string \<Rightarrow> string list" where
  "path_root s = (if startswith s ''//'' \<and> \<not> startswith s ''///'' then [''//'']
                  else if startswith s ''/'' then [''/''] else [])"

definition parse_parts :: "string \<Rightarrow> path" where
  "parse_parts s = path_root s @ filter (\<lambda>w. w \<noteq> [] \<and> w \<noteq> ''.'') (split_on CHR ''/'' s)"

definition is_absolute :: "path \<Rightarrow> bool" where
  "is_absolute p = (case p of [] \<Rightarrow> False | r # _ \<Rightarrow> r = ''/'' \<or> r = ''//'')"

definition pjoin :: "path \<Rightarrow> string \<Rightarrow> path" where
  \<comment> \<open>\<open>p / s\<close>: an absolute right operand replaces the left one\<close>
  "pjoin p s = (let q = parse_parts s in if is_absolute q then q else p @ q)"

definition parent :: "path \<Rightarrow> path" where
  \<comment> \<open>\<open>p.parent\<close>: the root and the empty path are their own parents\<close>
  "parent p = (if length p \<le> 1 \<and> (p = [] \<or> is_absolute p) then p else butlast p)"

fun join_with :: "string \<Rightarrow> string list \<Rightarrow> string" where
  "join_with sep [] = []"
| "join_with sep [w] = w"
| "join_with sep (w # ws) = w @ sep @ join_with sep ws"

definition canonical :: "path \<Rightarrow> bool" where
  \<comment> \<open>an absolute path below the root \<open>/\<close> with no part \<open>..\<close>: without links, two
      such paths name the same file only when they are equal\<close>
  "canonical p = (case p of [] \<Rightarrow> False | r # rest \<Rightarrow> r = ''/'' \<and> ''..'' \<notin> set rest)"

definition path_str :: "path \<Rightarrow> string" where
  \<comment> \<open>\<open>str(p)\<close>\<close>
  "path_str p = (case p of [] \<Rightarrow> ''.''
     | r # rest \<Rightarrow> if is_absolute p then r @ join_with ''/'' rest else join_with ''/'' p)"

subsection \<open>Exceptions and outcomes\<close>

datatype exn =
    KeyboardInterrupt
  | EOFError
  | KeyError string
  | JSONDecodeError
  | FileNotFoundError
  | FileExistsError
  | NotADirectoryError
  | IsADirectoryError
  | SameFileError
  | TimeoutExpired
  | SubprocessError
  | OSError
  | ValueError
  | StructError

definition is_Exception :: "exn \<Rightarrow> bool" where
  \<comment> \<open>what \<open>except Exception\<close> catches: everything modelled but KeyboardInterrupt\<close>
  "is_Exception x = (x \<noteq> KeyboardInterrupt)"

datatype 'a outcome =
    Return 'a
  | Exit int
  | Raise exn

subsection \<open>Records on disk, the file system\<close>

record dep =
  dep_from :: string
  dep_file :: string

record info =
  info_name :: string
  files_to_submit :: "string list"
  dependencies :: "dep list option"

text \<open>
  What a file holds: text, the dict that \<open>json.load\<close> returns for the configuration (an
  association list in which the first binding of a key counts) or for the metadata, or
  the entries of an archive.
\<close>

datatype content =
    Blob string
  | ConfigJson "(string \<times> string) list"
  | MetadataJson "(string \<times> info) list"
  | ZipArchive "(string \<times> content) list"

text \<open>
  A node carries its modification time, in microseconds on the local clock that
  \<open>now\<close> of the environment is read from.
\<close>

datatype node =
    File content int
  | Dir int

text \<open>
  The file system maps a path to the node found under it. There are no links, and a
  part \<open>..\<close> is not resolved: a node is found under one path only. This is what the
  operating system does for \<open>canonical\<close> paths, and the properties of the file system
  below are stated for such paths.
\<close>

type_synonym fs = "path \<Rightarrow> node option"

definition exists :: "fs \<Rightarrow> path \<Rightarrow> bool" where
  "exists fs p = (fs p \<noteq> None)"

definition is_dir :: "fs \<Rightarrow> path \<Rightarrow> bool" where
  "is_dir fs p = (case fs p of Some (Dir _) \<Rightarrow> True | _ \<Rightarrow> False)"

definition st_mtime :: "node \<Rightarrow> int" where
  "st_mtime n = (case n of File _ t \<Rightarrow> t | Dir t \<Rightarrow> t)"

subsection \<open>The environment and the world\<close>

datatype proc =
    Completed int string string
  | Raised exn

text \<open>
  The environment holds what the process is given: the repository root (the parent of the
  script's directory), the local time in microseconds (one value for the whole run),
  whether \<open>os.name\<close> is \<open>nt\<close>, and the external programs. \<open>git\<close> answers an
  argument vector on the current file system; \<open>gradle\<close> is given the command, the
  working directory and whether output is captured, and may change the file system.
  \<open>zip_size\<close> is the size in bytes the archive facility gives an archive.
\<close>

record env =
  root_dir :: path
  now :: int
  os_nt :: bool
  git :: "fs \<Rightarrow> string list \<Rightarrow> proc"
  gradle :: "fs \<Rightarrow> string list \<Rightarrow> path \<Rightarrow> bool \<Rightarrow> proc \<times> fs"
  zip_size :: "(string \<times> content) list \<Rightarrow> nat"

subsection \<open>check\_git\_status\<close>

datatype git_state = Unmodified | Modified | Untracked | Unknown

record git_status =
  status :: git_state
  commit :: "string option"
  time :: "string option"
  message :: "string option"

definition only_status :: "git_state \<Rightarrow> git_status" where
  "only_status s = \<lparr>status = s, commit = None, time = None, message = None\<rparr>"

definition age_str :: "int \<Rightarrow> string" where
  \<comment> \<open>the coarse relative age shown for a number of days\<close>
  "age_str days_ago =
     (if days_ago = 0 then ''today''
      else if days_ago = 1 then ''yesterday''
      else str_int days_ago @ '' days ago'')"

definition mtime_fallback :: "env \<Rightarrow> fs \<Rightarrow> path \<Rightarrow> git_status" where
  \<comment> \<open>the body of the \<open>except\<close> clause; \<open>timedelta.days\<close> rounds down\<close>
  "mtime_fallback e fs file_path =
     (case fs file_path of
        Some n \<Rightarrow>
          \<lparr>status = Unknown, commit = None,
           time = Some (age_str ((now e - st_mtime n) div 86400000000)), message = None\<rparr>
      | None \<Rightarrow> only_status Unknown)"

definition git_caught :: "exn \<Rightarrow> bool" where
  \<comment> \<open>\<open>except (subprocess.SubprocessError, FileNotFoundError)\<close>\<close>
  "git_caught x = (x = SubprocessError \<or> x = TimeoutExpired \<or> x = FileNotFoundError)"

definition git_except :: "env \<Rightarrow> fs \<Rightarrow> path \<Rightarrow> exn \<Rightarrow> exn + git_status" where
  "git_except e fs file_path x =
     (if git_caught x then Inr (mtime_fallback e fs file_path) else Inl x)"

definition git_status_cmd :: "path \<Rightarrow> string list" where
  "git_status_cmd file_path = [''git'', ''status'', ''--porcelain'', path_str file_path]"

definition git_log_cmd :: "path \<Rightarrow> string list" where
  "git_log_cmd file_path =
     [''git'', ''log'', ''-1'', ''--format=%h|%cr|%s'', ''--'', path_str file_path]"

definition log_fields :: "string \<Rightarrow> git_status" where
  \<comment> \<open>what the output of \<open>git log\<close> adds to the status \<open>modified\<close>\<close>
  "log_fields log_out =
     (case (if strip log_out \<noteq> [] then split_max CHR ''|'' 2 (strip log_out) else []) of
        [c, t, m] \<Rightarrow>
          \<lparr>status = Modified, commit = Some c, time = Some t, message = Some m\<rparr>
      | _ \<Rightarrow> only_status Modified)"

definition check_git_status :: "env \<Rightarrow> fs \<Rightarrow> path \<Rightarrow> exn + git_status" where
  "check_git_status e fs file_path =
     (case git e fs (git_status_cmd file_path) of
        Raised x \<Rightarrow> git_except e fs file_path x
      | Completed returncode out err \<Rightarrow>
          (let st = strip out in
           if st = [] then Inr (only_status Unmodified)
           else if startswith st '' M'' \<or> startswith st ''M '' then
             (case git e fs (git_log_cmd file_path) of
                Raised x \<Rightarrow> git_except e fs file_path x
              | Completed returncode2 out2 err2 \<Rightarrow> Inr (log_fields out2))
           else if startswith st ''??'' then Inr (only_status Untracked)
           else Inr (only_status Unknown)))"

subsection \<open>File-system operations\<close>

definition os_mkdir :: "env \<Rightarrow> path \<Rightarrow> fs \<Rightarrow> exn + fs" where
  "os_mkdir e p fs =
     (if exists fs p then Inl FileExistsError
      else if \<not> exists fs (parent p) then Inl FileNotFoundError
      else if \<not> is_dir fs (parent p) then Inl NotADirectoryError
      else Inr (fs(p \<mapsto> Dir (now e))))"

definition mkdir_exist_ok :: "env \<Rightarrow> path \<Rightarrow> fs \<Rightarrow> exn + fs" where
  \<comment> \<open>\<open>p.mkdir(exist_ok=True)\<close>\<close>
  "mkdir_exist_ok e p fs =
     (case os_mkdir e p fs of
        Inr fs' \<Rightarrow> Inr fs'
      | Inl x \<Rightarrow> if x = FileNotFoundError then Inl x
                 else if is_dir fs p then Inr fs else Inl x)"

function mkdir_parents :: "env \<Rightarrow> path \<Rightarrow> fs \<Rightarrow> exn + fs" where
  \<comment> \<open>\<open>p.mkdir(parents=True, exist_ok=True)\<close>\<close>
  "mkdir_parents e p fs =
     (case os_mkdir e p fs of
        Inr fs' \<Rightarrow> Inr fs'
      | Inl x \<Rightarrow>
          if x = FileNotFoundError then
            (if parent p = p then Inl x
             else (case mkdir_parents e (parent p) fs of
                     Inl y \<Rightarrow> Inl y
                   | Inr fs' \<Rightarrow> mkdir_exist_ok e p fs'))
          else if is_dir fs p then Inr fs else Inl x)"
  by pat_completeness auto
termination
proof (relation "measure (\<lambda>(e, p, fs). length p)")
  show "wf (measure (\<lambda>(e, p, fs). length p))" by simp
next
  fix e :: env and p :: path and fs :: fs and x :: exn
  assume "parent p \<noteq> p"
  then have "p \<noteq> []" and "parent p = butlast p"
    by (auto simp: parent_def split: if_splits)
  then show "((e, parent p, fs), e, p, fs) \<in> measure (\<lambda>(e, p, fs). length p)"
    by simp
qed

declare mkdir_parents.simps [simp del]

definition open_w :: "env \<Rightarrow> path \<Rightarrow> content \<Rightarrow> int \<Rightarrow> fs \<Rightarrow> exn + fs" where
  \<comment> \<open>open for writing, write the content, close; the file gets the given time\<close>
  "open_w e p c t fs =
     (case fs p of
        Some (Dir _) \<Rightarrow> Inl IsADirectoryError
      | Some (File _ _) \<Rightarrow> Inr (fs(p \<mapsto> File c t))
      | None \<Rightarrow>
          if \<not> exists fs (parent p) then Inl FileNotFoundError
          else if \<not> is_dir fs (parent p) then Inl NotADirectoryError
          else Inr (fs(p \<mapsto> File c t)))"

definition path_name :: "path \<Rightarrow> string" where
  \<comment> \<open>\<open>os.path.basename(str(p))\<close>\<close>
  "path_name p = (if p = [] \<or> (length p = 1 \<and> is_absolute p) then [] else last p)"

definition copy2 :: "env \<Rightarrow> path \<Rightarrow> path \<Rightarrow> fs \<Rightarrow> exn + fs" where
  \<comment> \<open>\<open>shutil.copy2(src, dst)\<close>: content and modification time\<close>
  "copy2 e src dst fs =
     (let dst' = (if is_dir fs dst \<and> path_name src \<noteq> [] then dst @ [path_name src] else dst)
      in if exists fs src \<and> src = dst' then Inl SameFileError
         else (case fs src of
                 None \<Rightarrow> Inl FileNotFoundError
               | Some (Dir _) \<Rightarrow> Inl IsADirectoryError
               | Some (File c t) \<Rightarrow> open_w e dst' c t fs))"

subsection \<open>Input and output\<close>

text \<open>
  One message per \<open>print\<close>. The messages the properties below speak about have a
  constructor of their own; every other line is \<open>Info\<close> with the fixed words of the line
  and the values interpolated into it. Colours and symbols are left out.
\<close>

datatype size_unit = B | KB | MB

datatype msg =
    Prompt string
  | Info string "string list"
  | MsgInvalidAssignment string
  | MsgValidAssignments "string list"
  | MsgSourceNotFound
  | MsgSetupCancelled
  | MsgSkipped
  | MsgCopied bool
  | MsgCopyFailed exn
  | MsgCopiedCount nat
  | MsgSkippedCount nat
  | MsgTestError exn
  | MsgCannotPackage nat
  | MsgArchiveSize size_unit nat
  | MsgCancelled
  | MsgError exn

datatype input_ev = Line string | Interrupt

record world =
  files :: fs
  stdin :: "input_ev list"
  out :: "msg list"

definition say :: "msg list \<Rightarrow> world \<Rightarrow> world" where
  "say ms w = w\<lparr>out := out w @ ms\<rparr>"

definition input :: "string \<Rightarrow> world \<Rightarrow> string outcome \<times> world" where
  \<comment> \<open>\<open>input(prompt)\<close>: end of input raises EOFError, Ctrl-C raises KeyboardInterrupt\<close>
  "input prompt w =
     (let w1 = (if prompt = [] then w else say [Prompt prompt] w)
      in case stdin w1 of
           [] \<Rightarrow> (Raise EOFError, w1)
         | Line s # rest \<Rightarrow> (Return s, w1\<lparr>stdin := rest\<rparr>)
         | Interrupt # rest \<Rightarrow> (Raise KeyboardInterrupt, w1\<lparr>stdin := rest\<rparr>))"

definition then_do ::
  "'a outcome \<times> world \<Rightarrow> ('a \<Rightarrow> world \<Rightarrow> 'b outcome \<times> world) \<Rightarrow> 'b outcome \<times> world" where
  \<comment> \<open>sequencing: \<open>sys.exit\<close> and a raised exception skip what follows\<close>
  "then_do r f = (case r of
       (Return x, w) \<Rightarrow> f x w
     | (Exit n, w) \<Rightarrow> (Exit n, w)
     | (Raise x, w) \<Rightarrow> (Raise x, w))"

subsection \<open>The helper's paths and loaders\<close>

definition scripts_dir :: "env \<Rightarrow> path" where
  "scripts_dir e = pjoin (root_dir e) ''scripts''"

definition config_file :: "env \<Rightarrow> path" where
  "config_file e = pjoin (scripts_dir e) ''config.json''"

definition metadata_file :: "env \<Rightarrow> path" where
  "metadata_file e = pjoin (scripts_dir e) ''assignment_metadata.json''"

definition output_dir :: "env \<Rightarrow> path" where
  "output_dir e = pjoin (root_dir e) ''output''"

definition get_assignment_dir :: "env \<Rightarrow> string \<Rightarrow> path" where
  "get_assignment_dir e assignment = pjoin (pjoin (root_dir e) assignment) ''tai-e''"

definition read_config :: "env \<Rightarrow> world \<Rightarrow> (string \<times> string) list outcome \<times> world" where
  \<comment> \<open>\<open>open(config_file)\<close> and \<open>json.load\<close>; a file of another shape raises\<close>
  "read_config e w =
     (case files w (config_file e) of
        None \<Rightarrow> (Raise FileNotFoundError, w)
      | Some (Dir _) \<Rightarrow> (Raise IsADirectoryError, w)
      | Some (File (ConfigJson c) _) \<Rightarrow> (Return c, w)
      | Some (File _ _) \<Rightarrow> (Raise JSONDecodeError, w))"

definition load_config :: "env \<Rightarrow> world \<Rightarrow> (string \<times> string) list outcome \<times> world" where
  "load_config e w =
     (if \<not> exists (files w) (config_file e)
      then (Exit 1, say [Info ''Config file not found. Please run config command first.'' []] w)
      else read_config e w)"

definition save_config :: "env \<Rightarrow> (string \<times> string) list \<Rightarrow> world \<Rightarrow> unit outcome \<times> world" where
  "save_config e config w =
     (case open_w e (config_file e) (ConfigJson config) (now e) (files w) of
        Inl x \<Rightarrow> (Raise x, w)
      | Inr fs' \<Rightarrow> (Return (), w\<lparr>files := fs'\<rparr>))"

definition load_metadata :: "env \<Rightarrow> world \<Rightarrow> (string \<times> info) list outcome \<times> world" where
  "load_metadata e w =
     (if \<not> exists (files w) (metadata_file e)
      then (Exit 1, say [Info ''Metadata file not found'' [path_str (metadata_file e)],
                         Info ''Please ensure assignment_metadata.json exists in scripts/ directory'' []] w)
      else (case files w (metadata_file e) of
              None \<Rightarrow> (Raise FileNotFoundError, w)
            | Some (Dir _) \<Rightarrow> (Raise IsADirectoryError, w)
            | Some (File (MetadataJson m) _) \<Rightarrow> (Return m, w)
            | Some (File _ _) \<Rightarrow> (Raise JSONDecodeError, w)))"

definition keys :: "('k \<times> 'v) list \<Rightarrow> 'k list" where
  \<comment> \<open>the keys of a dict given as an association list\<close>
  "keys m = remdups (map fst m)"

definition get_deps :: "info \<Rightarrow> dep list" where
  \<comment> \<open>\<open>info.get('dependencies', [])\<close>\<close>
  "get_deps i = (case dependencies i of None \<Rightarrow> [] | Some ds \<Rightarrow> ds)"

subsection \<open>cmd\_config, cmd\_list, cmd\_info\<close>

definition get_or_empty :: "(string \<times> string) list \<Rightarrow> string \<Rightarrow> string" where
  \<comment> \<open>\<open>d.get(k, '')\<close>\<close>
  "get_or_empty d k = (case map_of d k of None \<Rightarrow> [] | Some v \<Rightarrow> v)"

definition ask :: "string \<Rightarrow> string \<Rightarrow> world \<Rightarrow> string outcome \<times> world" where
  \<comment> \<open>one prompt of cmd\_config: the default is shown in brackets and kept on empty input\<close>
  "ask label dflt w =
     then_do (input (if dflt \<noteq> [] then label @ '' ['' @ dflt @ '']: '' else label @ '': '') w)
       (\<lambda>s w. let v = strip s in (Return (if v = [] \<and> dflt \<noteq> [] then dflt else v), w))"

definition cmd_config :: "env \<Rightarrow> world \<Rightarrow> unit outcome \<times> world" where
  "cmd_config e w0 =
     (let w = say [Info ''Assignment Helper Configuration'' [], Info ''='' [''50'']] w0 in
      then_do (if exists (files w) (config_file e) then read_config e w else (Return [], w))
        (\<lambda>existing_config w.
      then_do (ask ''Student ID'' (get_or_empty existing_config ''student_id'') w)
        (\<lambda>student_id w.
      then_do (ask ''Student Name'' (get_or_empty existing_config ''student_name'') w)
        (\<lambda>student_name w.
           if student_id = [] \<or> student_name = []
           then (Exit 1, say [Info ''Both student ID and name are required'' []] w)
           else
             then_do (save_config e [(''student_id'', student_id),
                                     (''student_name'', student_name),
                                     (''workspace_root'', path_str (root_dir e))] w)
               (\<lambda>_ w. (Return (),
                  say [Info ''Configuration saved successfully'' [],
                       Info ''Student ID'' [student_id],
                       Info ''Student Name'' [student_name]] w))))))"

definition list_entry :: "(string \<times> info) list \<Rightarrow> string \<Rightarrow> msg list" where
  "list_entry metadata assignment_id =
     (case map_of metadata assignment_id of
        None \<Rightarrow> []
      | Some i \<Rightarrow>
          [Info ''assignment'' [assignment_id, info_name i],
           Info ''Files to submit'' [str_nat (length (files_to_submit i))],
           Info ''Dependencies: file(s) from previous assignments'' [str_nat (length (get_deps i))]]
          @ (if length (get_deps i) > 0
             then [Info ''Depends on'' (sort (remdups (map dep_from (get_deps i))))] else []))"

definition cmd_list :: "env \<Rightarrow> world \<Rightarrow> unit outcome \<times> world" where
  "cmd_list e w =
     then_do (load_metadata e w)
       (\<lambda>metadata w. (Return (),
          say ([Info ''Available Assignments'' [], Info ''='' [''70'']]
               @ concat (map (list_entry metadata) (sort (keys metadata)))) w))"

definition cmd_info :: "env \<Rightarrow> string \<Rightarrow> world \<Rightarrow> unit outcome \<times> world" where
  "cmd_info e assignment w =
     then_do (load_metadata e w)
       (\<lambda>metadata w.
          case map_of metadata assignment of
            None \<Rightarrow> (Exit 1, say [MsgInvalidAssignment assignment,
                                   MsgValidAssignments (sort (keys metadata))] w)
          | Some i \<Rightarrow> (Return (),
              say ([Info ''Assignment'' [assignment, info_name i], Info ''='' [''70''],
                    Info ''Files to Submit:'' []]
                   @ map (\<lambda>f. Info ''file'' [f]) (files_to_submit i)
                   @ (if get_deps i \<noteq> []
                      then Info ''Dependencies:'' []
                           # map (\<lambda>d. Info ''From'' [dep_from d, basename (dep_file d)]) (get_deps i)
                      else [Info ''Dependencies: None'' []])) w))"

subsection \<open>cmd\_setup\<close>

record setup_state =
  success_count :: nat
  skip_count :: nat
  force_all :: bool

definition confirm_overwrite :: "setup_state \<Rightarrow> world \<Rightarrow> (bool \<times> setup_state) outcome \<times> world" where
  \<comment> \<open>the prompt for a modified target; the boolean says whether the copy goes ahead\<close>
  "confirm_overwrite st w0 =
     (let w = say [Info ''This will overwrite your local changes.'' [],
                   Info ''Options:'' [],
                   Info ''y - Yes, overwrite this file'' [],
                   Info ''n - No, skip this file'' [],
                   Info ''a - All, overwrite this and all remaining files'' [],
                   Info ''q - Quit setup'' [],
                   Info ''Your choice [y/N/a/q]: '' []] w0
      in then_do (input [] w)
           (\<lambda>line w.
              let choice = strip (lower line) in
              if choice = ''q'' then (Exit 0, say [MsgSetupCancelled] w)
              else if choice = ''a''
                then (Return (True, st\<lparr>force_all := True\<rparr>), say [Info [] []] w)
              else if choice \<noteq> ''y''
                then (Return (False, st\<lparr>skip_count := skip_count st + 1\<rparr>), say [MsgSkipped] w)
              else (Return (True, st), say [Info [] []] w)))"

definition copy_failed :: "exn \<Rightarrow> setup_state \<Rightarrow> world \<Rightarrow> setup_state outcome \<times> world" where
  \<comment> \<open>\<open>except Exception as e\<close> around the copy\<close>
  "copy_failed x st w =
     (if is_Exception x then (Return st, say [MsgCopyFailed x] w) else (Raise x, w))"

definition perform_copy ::
  "env \<Rightarrow> path \<Rightarrow> path \<Rightarrow> bool \<Rightarrow> setup_state \<Rightarrow> world \<Rightarrow> setup_state outcome \<times> world" where
  "perform_copy e source_file target_file is_modified st w =
     (case mkdir_parents e (parent target_file) (files w) of
        Inl x \<Rightarrow> copy_failed x st w
      | Inr fs1 \<Rightarrow>
          (case copy2 e source_file target_file fs1 of
             Inl x \<Rightarrow> copy_failed x st (w\<lparr>files := fs1\<rparr>)
           | Inr fs2 \<Rightarrow>
               (Return (st\<lparr>success_count := success_count st + 1\<rparr>),
                say [MsgCopied (is_modified \<and> force_all st)] (w\<lparr>files := fs2\<rparr>))))"

definition target_status :: "env \<Rightarrow> fs \<Rightarrow> path \<Rightarrow> exn + git_status option" where
  \<comment> \<open>\<open>self.check_git_status(target_file) if target_exists else None\<close>\<close>
  "target_status e fs target_file =
     (if exists fs target_file
      then (case check_git_status e fs target_file of Inl x \<Rightarrow> Inl x | Inr g \<Rightarrow> Inr (Some g))
      else Inr None)"

definition setup_dep ::
  "env \<Rightarrow> string \<Rightarrow> nat \<Rightarrow> nat \<Rightarrow> dep \<Rightarrow> setup_state \<Rightarrow> world \<Rightarrow> setup_state outcome \<times> world" where
  \<comment> \<open>one iteration of the loop over the dependencies\<close>
  "setup_dep e assignment n idx d st w0 =
     (let source_file = pjoin (get_assignment_dir e (dep_from d)) (dep_file d);
          target_file = pjoin (get_assignment_dir e assignment) (dep_file d);
          w = say [Info ''dependency'' [str_nat idx, str_nat n, basename (dep_file d)],
                   Info ''from, to'' [dep_from d, assignment],
                   Info [] []] w0
      in if \<not> exists (files w) source_file then (Return st, say [MsgSourceNotFound] w)
         else (case target_status e (files w) target_file of
                 Inl x \<Rightarrow> (Raise x, w)
               | Inr git_status \<Rightarrow>
                   (let is_modified =
                          (case git_status of None \<Rightarrow> False | Some g \<Rightarrow> status g = Modified);
                        w = say [case git_status of
                                   None \<Rightarrow> Info ''Status: Target file does not exist'' []
                                 | Some g \<Rightarrow>
                                     if is_modified
                                     then Info ''Status: Target file modified''
                                            [case time g of None \<Rightarrow> ''recently'' | Some t \<Rightarrow> t]
                                     else Info ''Status: Target file unchanged'' []] w
                    in then_do (if is_modified \<and> \<not> force_all st then confirm_overwrite st w
                                else (Return (True, st), w))
                         (\<lambda>(go, st) w.
                            if go then perform_copy e source_file target_file is_modified st w
                            else (Return st, w)))))"

fun setup_loop ::
  "env \<Rightarrow> string \<Rightarrow> nat \<Rightarrow> nat \<Rightarrow> dep list \<Rightarrow> setup_state \<Rightarrow> world \<Rightarrow> setup_state outcome \<times> world" where
  "setup_loop e assignment n idx [] st w = (Return st, w)"
| "setup_loop e assignment n idx (d # ds) st w =
     then_do (setup_dep e assignment n idx d st w)
       (\<lambda>st w. setup_loop e assignment n (Suc idx) ds st w)"

definition setup_summary :: "setup_state \<Rightarrow> msg list" where
  "setup_summary st =
     [Info ''Summary:'' [], MsgCopiedCount (success_count st)]
     @ (if skip_count st > 0 then [MsgSkippedCount (skip_count st)] else [])"

definition failure_reports :: "msg list \<Rightarrow> nat" where
  \<comment> \<open>how many of the printed lines report an entry that was not copied because its
      source is missing or because the copy raised\<close>
  "failure_reports ms =
     length (filter (\<lambda>m. case m of MsgSourceNotFound \<Rightarrow> True
                               | MsgCopyFailed x \<Rightarrow> True
                               | _ \<Rightarrow> False) ms)"

definition cmd_setup :: "env \<Rightarrow> string \<Rightarrow> bool \<Rightarrow> world \<Rightarrow> unit outcome \<times> world" where
  "cmd_setup e assignment force w =
     then_do (load_metadata e w)
       (\<lambda>metadata w.
          case map_of metadata assignment of
            None \<Rightarrow> (Exit 1, say [MsgInvalidAssignment assignment] w)
          | Some i \<Rightarrow>
              (let deps = get_deps i in
               if deps = [] then (Return (), say [Info ''has no dependencies'' [assignment]] w)
               else
                 then_do (setup_loop e assignment (length deps) 1 deps
                            \<lparr>success_count = 0, skip_count = 0, force_all = force\<rparr>
                            (say [Info ''Setting up dependencies for'' [assignment],
                                  Info ''='' [''70'']] w))
                   (\<lambda>st w. (Return (), say (setup_summary st) w))))"

subsection \<open>cmd\_test\<close>

definition report_line :: "fs \<Rightarrow> path \<Rightarrow> msg list" where
  "report_line fs assignment_dir =
     (let test_report =
            pjoin (pjoin (pjoin (pjoin (pjoin assignment_dir ''build'') ''reports'') ''tests'')
                     ''test'') ''index.html''
      in if exists fs test_report then [Info ''Detailed report'' [path_str test_report]] else [])"

definition gradle_wrapper :: "env \<Rightarrow> string \<Rightarrow> path" where
  \<comment> \<open>the wrapper script of the platform inside the assignment directory\<close>
  "gradle_wrapper e assignment =
     (let gradle_cmd = (if os_nt e then ''gradlew.bat'' else ''./gradlew'')
      in pjoin (get_assignment_dir e assignment) (lstrip_chars gradle_cmd ''./''))"

definition run_gradle :: "env \<Rightarrow> string \<Rightarrow> bool \<Rightarrow> fs \<Rightarrow> proc \<times> fs" where
  \<comment> \<open>\<open>subprocess.run(cmd, cwd=assignment_dir, capture_output=not args.verbose, text=True)\<close>\<close>
  "run_gradle e assignment verbose fs =
     gradle e fs [path_str (gradle_wrapper e assignment), ''test'', ''--console=plain'']
       (get_assignment_dir e assignment) (\<not> verbose)"

definition cmd_test :: "env \<Rightarrow> string \<Rightarrow> bool \<Rightarrow> world \<Rightarrow> bool outcome \<times> world" where
  "cmd_test e assignment verbose w0 =
     (let assignment_dir = get_assignment_dir e assignment in
      if \<not> exists (files w0) assignment_dir
      then (Exit 1, say [Info ''Assignment directory not found'' [path_str assignment_dir]] w0)
      else
        (let w1 = say [Info ''Running tests for'' [assignment], Info ''='' [''70'']] w0
         in if \<not> exists (files w1) (gradle_wrapper e assignment)
            then (Exit 1, say [Info ''Gradle wrapper not found''
                                 [path_str (gradle_wrapper e assignment)]] w1)
            else
              (let cmd = [path_str (gradle_wrapper e assignment), ''test'', ''--console=plain''];
                   w2 = say [Info ''Command'' cmd,
                             Info ''Working directory'' [path_str assignment_dir]] w1;
                   r = run_gradle e assignment verbose (files w2);
                   w = w2\<lparr>files := snd r\<rparr>
               in case fst r of
                    Raised x \<Rightarrow>
                      if is_Exception x then (Return False, say [MsgTestError x] w)
                      else (Raise x, w)
                  | Completed returncode stdout stderr \<Rightarrow>
                      if returncode = 0
                      then (Return True,
                            say ([Info ''='' [''70''], Info ''BUILD SUCCESSFUL'' [],
                                  Info ''='' [''70'']]
                                 @ report_line (files w) assignment_dir) w)
                      else (Return False,
                            say ([Info ''='' [''70''], Info ''BUILD FAILED'' [],
                                  Info ''='' [''70'']]
                                 @ (if \<not> verbose \<and> stdout \<noteq> []
                                    then (let lines = split_on CHR 0x0A stdout
                                          in [Info ''Last lines of output:'' [],
                                              Info ''output'' (drop (length lines - 30) lines)])
                                    else [])
                                 @ report_line (files w) assignment_dir) w))))"

subsection \<open>cmd\_package\<close>

definition zip_date_error :: "int \<Rightarrow> exn option" where
  \<comment> \<open>the years an archive entry can carry: a modification time before
      1980-01-01 makes \<open>ZipInfo\<close> raise ValueError, one after 2107-12-31 does not fit
      the sixteen bits of the date field and \<open>struct.pack\<close> raises\<close>
  "zip_date_error mtime =
     (if mtime < 315532800000000 then Some ValueError
      else if 4354819200000000 \<le> mtime then Some StructError
      else None)"

definition zip_write :: "fs \<Rightarrow> path \<Rightarrow> string \<Rightarrow> exn + string \<times> content" where
  \<comment> \<open>\<open>zipf.write(source_file, zip_arcname)\<close>: the entry the archive gets\<close>
  "zip_write fs source_file zip_arcname =
     (let name = (if zip_arcname = [] then ''.'' else zip_arcname) in
      case fs source_file of
        None \<Rightarrow> Inl FileNotFoundError
      | Some n \<Rightarrow>
          (case zip_date_error (st_mtime n) of
             Some x \<Rightarrow> Inl x
           | None \<Rightarrow>
               (case n of
                  Dir _ \<Rightarrow> Inr (name @ ''/'', Blob [])
                | File c _ \<Rightarrow> Inr (name, c))))"

fun zip_entries :: "fs \<Rightarrow> (path \<times> string) list \<Rightarrow> (string \<times> content) list \<times> exn option" where
  \<comment> \<open>the loop inside the \<open>with\<close> block; it stops at the first exception\<close>
  "zip_entries fs [] = ([], None)"
| "zip_entries fs ((source_file, arcname) # rest) =
     (case zip_write fs source_file (basename arcname) of
        Inl x \<Rightarrow> ([], Some x)
      | Inr en \<Rightarrow> (case zip_entries fs rest of (ens, r) \<Rightarrow> (en # ens, r)))"

definition write_zip :: "env \<Rightarrow> path \<Rightarrow> (path \<times> string) list \<Rightarrow> fs \<Rightarrow> exn option \<times> fs" where
  \<comment> \<open>\<open>with zipfile.ZipFile(zip_path, 'w', ...)\<close>: opening truncates the file, the entries
      are read while it is open, closing writes what was collected, also after an exception\<close>
  "write_zip e zip_path items fs =
     (case open_w e zip_path (Blob []) (now e) fs of
        Inl x \<Rightarrow> (Some x, fs)
      | Inr fs1 \<Rightarrow>
          (case zip_entries fs1 items of
             (entries, r) \<Rightarrow> (r, fs1(zip_path \<mapsto> File (ZipArchive entries) (now e)))))"

definition zip_filename :: "string \<Rightarrow> string \<Rightarrow> string \<Rightarrow> string" where
  "zip_filename student_id student_name assignment =
     student_id @ ''-'' @ student_name @ ''-'' @ assignment @ ''.zip''"

definition size_msg :: "nat \<Rightarrow> msg" where
  \<comment> \<open>the unit the size is shown in; the rounding to one decimal is not modelled\<close>
  "size_msg file_size =
     (if file_size < 1024 then MsgArchiveSize B file_size
      else if file_size < 1024 * 1024 then MsgArchiveSize KB file_size
      else MsgArchiveSize MB file_size)"

definition stat_size :: "env \<Rightarrow> fs \<Rightarrow> path \<Rightarrow> exn + nat" where
  \<comment> \<open>\<open>zip_path.stat().st_size\<close>; only the size of an archive is ever asked for\<close>
  "stat_size e fs p =
     (case fs p of
        Some (File (ZipArchive entries) _) \<Rightarrow> Inr (zip_size e entries)
      | Some _ \<Rightarrow> Inr 0
      | None \<Rightarrow> Inl FileNotFoundError)"

definition package_files ::
  "env \<Rightarrow> string \<Rightarrow> string \<Rightarrow> string \<Rightarrow> info \<Rightarrow> world \<Rightarrow> unit outcome \<times> world" where
  \<comment> \<open>cmd\_package from the creation of the output directory on\<close>
  "package_files e assignment student_id student_name i w0 =
     (case mkdir_exist_ok e (output_dir e) (files w0) of
        Inl x \<Rightarrow> (Raise x, w0)
      | Inr fs1 \<Rightarrow>
          (let assignment_dir = get_assignment_dir e assignment;
               present = (\<lambda>file_rel_path. exists fs1 (pjoin assignment_dir file_rel_path));
               files_to_package =
                 map (\<lambda>file_rel_path. (pjoin assignment_dir file_rel_path, file_rel_path))
                     (filter present (files_to_submit i));
               missing_files = filter (\<lambda>f. \<not> present f) (files_to_submit i);
               w1 = say (map (\<lambda>f. if present f then Info ''found'' [basename f]
                                   else Info ''not found'' [basename f]) (files_to_submit i))
                        (w0\<lparr>files := fs1\<rparr>)
           in if missing_files \<noteq> []
              then (Exit 1, say [MsgCannotPackage (length missing_files)] w1)
              else
                (let name = zip_filename student_id student_name assignment;
                     zip_path = pjoin (output_dir e) name;
                     w2 = say [Info ''Creating archive'' [name]] w1;
                     r = write_zip e zip_path files_to_package (files w2);
                     w3 = w2\<lparr>files := snd r\<rparr>
                 in case fst r of
                      Some x \<Rightarrow> (Raise x, w3)
                    | None \<Rightarrow>
                        (case stat_size e (files w3) zip_path of
                           Inl x \<Rightarrow> (Raise x, w3)
                         | Inr file_size \<Rightarrow>
                             (Return (),
                              say [Info ''='' [''70''], Info ''Package created successfully'' [],
                                   Info ''='' [''70''], Info ''File'' [path_str zip_path],
                                   size_msg file_size,
                                   Info ''Files'' [str_nat (length files_to_package)]] w3)))))"

definition lookup_key :: "(string \<times> string) list \<Rightarrow> string \<Rightarrow> world \<Rightarrow> string outcome \<times> world" where
  \<comment> \<open>\<open>config[k]\<close>: a missing key raises KeyError\<close>
  "lookup_key config k w =
     (case map_of config k of None \<Rightarrow> (Raise (KeyError k), w) | Some v \<Rightarrow> (Return v, w))"

definition cmd_package :: "env \<Rightarrow> string \<Rightarrow> world \<Rightarrow> unit outcome \<times> world" where
  "cmd_package e assignment w =
     then_do (load_config e w)
       (\<lambda>config w.
     then_do (load_metadata e w)
       (\<lambda>metadata w.
          case map_of metadata assignment of
            None \<Rightarrow> (Exit 1, say [MsgInvalidAssignment assignment] w)
          | Some i \<Rightarrow>
              then_do (lookup_key config ''student_id'' w)
                (\<lambda>student_id w.
              then_do (lookup_key config ''student_name'' w)
                (\<lambda>student_name w.
                   package_files e assignment student_id student_name i
                     (say [Info ''Packaging for submission'' [assignment],
                           Info ''='' [''70'']] w)))))"

subsection \<open>cmd\_submit and main\<close>

definition cmd_submit :: "env \<Rightarrow> string \<Rightarrow> bool \<Rightarrow> world \<Rightarrow> unit outcome \<times> world" where
  "cmd_submit e assignment verbose w =
     then_do (cmd_test e assignment verbose
                (say [Info ''Submitting'' [assignment], Info ''='' [''70'']] w))
       (\<lambda>test_success w.
          if \<not> test_success
          then (Exit 1, say [Info ''Tests failed. Cannot package for submission.'' [],
                             Info ''Fix the failing tests and try again.'' []] w)
          else cmd_package e assignment
                 (say [Info ''Tests passed! Proceeding with packaging...'' []] w))"

datatype command =
    CmdNone
  | CmdConfig
  | CmdList
  | CmdInfo string
  | CmdSetup string bool
  | CmdTest string bool
  | CmdPackage string
  | CmdSubmit string bool

definition run_command :: "env \<Rightarrow> command \<Rightarrow> world \<Rightarrow> unit outcome \<times> world" where
  \<comment> \<open>the body of the \<open>try\<close> in main\<close>
  "run_command e c w =
     (case c of
        CmdNone \<Rightarrow> (Return (), w)
      | CmdConfig \<Rightarrow> cmd_config e w
      | CmdList \<Rightarrow> cmd_list e w
      | CmdInfo a \<Rightarrow> cmd_info e a w
      | CmdSetup a force \<Rightarrow> cmd_setup e a force w
      | CmdTest a verbose \<Rightarrow> then_do (cmd_test e a verbose w) (\<lambda>_ w. (Return (), w))
      | CmdPackage a \<Rightarrow> cmd_package e a w
      | CmdSubmit a verbose \<Rightarrow> cmd_submit e a verbose w)"

definition main :: "env \<Rightarrow> command \<Rightarrow> world \<Rightarrow> int \<times> world" where
  \<comment> \<open>the exit status of the process and the world it leaves; with the debug flag an
      exception is raised again after the message, which ends the process with status 1 too\<close>
  "main e c w =
     (if c = CmdNone then (1, say [Info ''usage'' []] w)
      else (case run_command e c w of
              (Return _, w') \<Rightarrow> (0, w')
            | (Exit n, w') \<Rightarrow> (n, w')
            | (Raise x, w') \<Rightarrow>
                if x = KeyboardInterrupt then (1, say [MsgCancelled] w')
                else (1, say [MsgError x] w')))"

subsection \<open>A concrete repository\<close>

text \<open>
  The repository of the specification's examples: assignment A3 submits
  \<open>src/Solver.java\<close> and depends on \<open>src/CFGBuilder.java\<close> of A2; the student is
  2021001, Zhang. No git is installed and the Gradle wrapper is absent.
\<close>

definition example_time :: int where
  \<comment> \<open>2023-11-14 22:13:20, in microseconds\<close>
  "example_time = 1700000000000000"

definition example_env :: env where
  "example_env =
     \<lparr>root_dir = [''/'', ''r''], now = example_time + 1000, os_nt = False,
      git = (\<lambda>fs args. Raised FileNotFoundError),
      gradle = (\<lambda>fs cmd cwd capture. (Completed 0 [] [], fs)),
      zip_size = (\<lambda>entries. 100)\<rparr>"

definition example_info :: info where
  "example_info =
     \<lparr>info_name = ''Dataflow Analysis'', files_to_submit = [''src/Solver.java''],
      dependencies = Some [\<lparr>dep_from = ''A2'', dep_file = ''src/CFGBuilder.java''\<rparr>]\<rparr>"

definition example_metadata :: "(string \<times> info) list" where
  "example_metadata = [(''A3'', example_info)]"

definition example_fs :: fs where
  "example_fs = map_of
     [([''/''], Dir example_time),
      ([''/'', ''r''], Dir example_time),
      ([''/'', ''r'', ''scripts''], Dir example_time),
      ([''/'', ''r'', ''scripts'', ''assignment_metadata.json''],
         File (MetadataJson example_metadata) example_time),
      ([''/'', ''r'', ''scripts'', ''config.json''],
         File (ConfigJson [(''student_id'', ''2021001''), (''student_name'', ''Zhang'')]) example_time),
      ([''/'', ''r'', ''A2''], Dir example_time),
      ([''/'', ''r'', ''A2'', ''tai-e''], Dir example_time),
      ([''/'', ''r'', ''A2'', ''tai-e'', ''src''], Dir example_time),
      ([''/'', ''r'', ''A2'', ''tai-e'', ''src'', ''CFGBuilder.java''], File (Blob ''cfg'') (example_time + 5)),
      ([''/'', ''r'', ''A3''], Dir example_time),
      ([''/'', ''r'', ''A3'', ''tai-e''], Dir example_time),
      ([''/'', ''r'', ''A3'', ''tai-e'', ''src''], Dir example_time),
      ([''/'', ''r'', ''A3'', ''tai-e'', ''src'', ''Solver.java''], File (Blob ''solver'') (example_time + 7))]"

definition example_world :: world where
  "example_world = \<lparr>files = example_fs, stdin = [], out = []\<rparr>"

definition interrupted_world :: world where
  \<comment> \<open>the user presses Ctrl-C at the first prompt\<close>
  "interrupted_world = \<lparr>files = example_fs, stdin = [Interrupt], out = []\<rparr>"

definition missing_file_world :: world where
  \<comment> \<open>the example repository without \<open>src/Solver.java\<close> in A3\<close>
  "missing_file_world =
     \<lparr>files = example_fs([''/'', ''r'', ''A3'', ''tai-e'', ''src'', ''Solver.java''] := None),
      stdin = [], out = []\<rparr>"

definition tested_fs :: fs where
  \<comment> \<open>the example repository with a Gradle wrapper in A3\<close>
  "tested_fs =
     example_fs([''/'', ''r'', ''A3'', ''tai-e'', ''gradlew''] \<mapsto> File (Blob ''#!/bin/sh'') (example_time + 3))"

definition tested_world :: world where
  "tested_world = \<lparr>files = tested_fs, stdin = [], out = []\<rparr>"

definition failing_env :: env where
  \<comment> \<open>the tests of the assignment fail: the wrapper exits with status 1\<close>
  "failing_env =
     example_env\<lparr>gradle := \<lambda>fs cmd cwd capture. (Completed 1 ''FAILED'' [], fs)\<rparr>"


definition modified_env :: env where
  \<comment> \<open>git is installed and reports every file it is asked about as modified\<close>
  "modified_env =
     example_env\<lparr>git := \<lambda>fs args.
        if take 2 args = [''git'', ''status'']
        then Completed 0 ('' M src/CFGBuilder.java'' @ [CHR 0x0A]) []
        else Completed 0 (''1a2b3c4|2 days ago|Build the CFG'' @ [CHR 0x0A]) []\<rparr>"

definition quit_metadata :: "(string \<times> info) list" where
  \<comment> \<open>A3 with a second dependency after the one of the example\<close>
  "quit_metadata =
     [(''A3'', example_info\<lparr>dependencies :=
         Some [\<lparr>dep_from = ''A2'', dep_file = ''src/CFGBuilder.java''\<rparr>,
               \<lparr>dep_from = ''A2'', dep_file = ''src/Solver.java''\<rparr>]\<rparr>)]"

definition quit_world :: world where
  \<comment> \<open>A3 already has its own \<open>src/CFGBuilder.java\<close>; the user types Q, then y\<close>
  "quit_world =
     \<lparr>files = example_fs
        ([''/'', ''r'', ''scripts'', ''assignment_metadata.json'']
           \<mapsto> File (MetadataJson quit_metadata) example_time,
         [''/'', ''r'', ''A3'', ''tai-e'', ''src'', ''CFGBuilder.java''] \<mapsto> File (Blob ''mine'') (example_time + 9)),
      stdin = [Line '' Q'', Line ''y''], out = []\<rparr>"

definition config_world :: world where
  \<comment> \<open>the user keeps the student id and types a new name\<close>
  "config_world = \<lparr>files = example_fs, stdin = [Line [], Line ''Li ''], out = []\<rparr>"

section \<open>Properties\<close>

subsection \<open>Sequencing and output\<close>

lemma then_do_Return [simp]: "then_do (Return x, w) f = f x w"
  and then_do_Exit [simp]: "then_do (Exit n, w) f = (Exit n, w)"
  and then_do_Raise [simp]: "then_do (Raise y, w) f = (Raise y, w)"
  by (simp_all add: then_do_def)

lemma say_sel [simp]:
  "files (say ms w) = files w" "stdin (say ms w) = stdin w" "out (say ms w) = out w @ ms"
  by (simp_all add: say_def)

subsection \<open>Paths, directories and loaders\<close>

lemma split_on_not_Nil [simp]: "split_on c s \<noteq> []"
  by (induction s) (auto split: list.splits)

lemma split_on_no_sep: "c \<notin> set t \<Longrightarrow> split_on c t = [t]"
  by (induction t) auto

lemma split_on_append:
  "c \<notin> set t \<Longrightarrow>
     split_on c (s @ t) = butlast (split_on c s) @ [last (split_on c s) @ t]"
proof (induction s)
  case Nil
  then show ?case by (simp add: split_on_no_sep)
next
  case (Cons x s)
  obtain w ws where ws: "split_on c s = w # ws"
    by (cases "split_on c s") auto
  from Cons ws show ?case
    by (cases ws) auto
qed

lemma last_split_on_append:
  "c \<notin> set t \<Longrightarrow> last (split_on c (s @ t)) = last (split_on c s) @ t"
  by (simp add: split_on_append)

lemma filter_keeps_last: "xs \<noteq> [] \<Longrightarrow> P (last xs) \<Longrightarrow> filter P xs \<noteq> []"
  by (induction xs) (auto split: if_splits)

lemma last_filter_keep: "xs \<noteq> [] \<Longrightarrow> P (last xs) \<Longrightarrow> last (filter P xs) = last xs"
  by (induction xs) (auto simp: filter_keeps_last split: if_splits)

lemma parse_parts_word [simp]:
  "parse_parts ''output'' = [''output'']" "parse_parts ''scripts'' = [''scripts'']"
  "parse_parts ''config.json'' = [''config.json'']" "parse_parts ''tai-e'' = [''tai-e'']"
  "parse_parts ''assignment_metadata.json'' = [''assignment_metadata.json'']"
  by (simp_all add: parse_parts_def path_root_def startswith_def)

lemma output_dir_eq: "output_dir e = root_dir e @ [''output'']"
  by (simp add: output_dir_def pjoin_def is_absolute_def)

lemma scripts_dir_eq: "scripts_dir e = root_dir e @ [''scripts'']"
  by (simp add: scripts_dir_def pjoin_def is_absolute_def)

lemma config_file_eq: "config_file e = root_dir e @ [''scripts'', ''config.json'']"
  by (simp add: config_file_def scripts_dir_eq pjoin_def is_absolute_def)

lemma parent_output_dir: "parent (output_dir e) = root_dir e"
  by (simp add: output_dir_eq parent_def is_absolute_def split: list.splits)

lemma parent_config_file: "parent (config_file e) = scripts_dir e"
  by (simp add: config_file_eq scripts_dir_eq parent_def butlast_append)

lemma parse_parts_zip:
  "parse_parts (s @ ''.zip'') \<noteq> [] \<and> (\<exists>y. last (parse_parts (s @ ''.zip'')) = y @ ''.zip'')"
proof -
  let ?xs = "split_on CHR ''/'' (s @ ''.zip'')"
  let ?P = "\<lambda>w. w \<noteq> [] \<and> w \<noteq> ''.''"
  have l: "last ?xs = last (split_on CHR ''/'' s) @ ''.zip''"
    by (rule last_split_on_append) simp
  then have P: "?P (last ?xs)" by auto
  have ne: "?xs \<noteq> []" by simp
  from ne P have fne: "filter ?P ?xs \<noteq> []" by (rule filter_keeps_last)
  from ne P have "last (filter ?P ?xs) = last ?xs" by (rule last_filter_keep)
  with l fne show ?thesis by (simp add: parse_parts_def)
qed

lemma zip_path_neq_output_dir:
  "pjoin (output_dir e) (zip_filename sid sname a) \<noteq> output_dir e"
proof -
  let ?q = "parse_parts (zip_filename sid sname a)"
  have "zip_filename sid sname a = (sid @ ''-'' @ sname @ ''-'' @ a) @ ''.zip''"
    by (simp add: zip_filename_def)
  with parse_parts_zip [of "sid @ ''-'' @ sname @ ''-'' @ a"]
  obtain y where ne: "?q \<noteq> []" and l: "last ?q = y @ ''.zip''" by auto
  show ?thesis
  proof (cases "is_absolute ?q")
    case True
    then have "pjoin (output_dir e) (zip_filename sid sname a) = ?q" by (simp add: pjoin_def)
    moreover have "last (output_dir e) = ''output''" by (simp add: output_dir_eq)
    moreover have "y @ ''.zip'' \<noteq> ''output''"
    proof
      assume "y @ ''.zip'' = ''output''"
      then have "last (y @ ''.zip'') = last ''output''" by simp
      then show False by simp
    qed
    ultimately show ?thesis using l by metis
  next
    case False
    then have "pjoin (output_dir e) (zip_filename sid sname a) = output_dir e @ ?q" by (simp add: pjoin_def)
    with ne show ?thesis by simp
  qed
qed

lemma mkdir_exist_ok_eq:
  "mkdir_exist_ok e p fs =
     (if exists fs p then (if is_dir fs p then Inr fs else Inl FileExistsError)
      else if \<not> exists fs (parent p) then Inl FileNotFoundError
      else if \<not> is_dir fs (parent p) then Inl NotADirectoryError
      else Inr (fs(p \<mapsto> Dir (now e))))"
  by (auto simp: mkdir_exist_ok_def os_mkdir_def is_dir_def exists_def split: option.splits node.splits)

lemma mkdir_exist_ok_frame:
  "mkdir_exist_ok e p fs = Inr fs' \<Longrightarrow> q \<noteq> p \<Longrightarrow> fs' q = fs q"
  by (auto simp: mkdir_exist_ok_eq split: if_splits)

lemma load_metadata_ok:
  "files w (metadata_file e) = Some (File (MetadataJson m) t) \<Longrightarrow> load_metadata e w = (Return m, w)"
  by (simp add: load_metadata_def exists_def)

lemma load_config_ok:
  "files w (config_file e) = Some (File (ConfigJson c) t) \<Longrightarrow> load_config e w = (Return c, w)"
  by (simp add: load_config_def read_config_def exists_def)

lemma load_config_cases:
  "(\<exists>c. load_config e w = (Return c, w)) \<or> (\<exists>x. load_config e w = (Raise x, w))
   \<or> (\<exists>ms. load_config e w = (Exit 1, say ms w))"
  by (auto simp: load_config_def read_config_def exists_def split: option.splits node.splits content.splits)

lemma lookup_key_cases:
  "(\<exists>v. lookup_key c k w = (Return v, w)) \<or> (\<exists>x. lookup_key c k w = (Raise x, w))"
  by (auto simp: lookup_key_def split: option.splits)

lemma package_files_missing:
  assumes "rel \<in> set (files_to_submit i)"
    and "\<not> exists (files w) (pjoin (get_assignment_dir e a) rel)"
    and "pjoin (get_assignment_dir e a) rel \<noteq> output_dir e"
  shows "(fst (package_files e a sid sname i w) = Exit 1 \<or> (\<exists>x. fst (package_files e a sid sname i w) = Raise x))
         \<and> (\<forall>p. p \<noteq> output_dir e \<longrightarrow> files (snd (package_files e a sid sname i w)) p = files w p)"
proof (cases "mkdir_exist_ok e (output_dir e) (files w)")
  case (Inl x)
  then show ?thesis by (simp add: package_files_def)
next
  case (Inr fs1)
  have fr: "\<And>q. q \<noteq> output_dir e \<Longrightarrow> fs1 q = files w q"
    using Inr by (rule mkdir_exist_ok_frame)
  from assms(2,3) have "\<not> exists fs1 (pjoin (get_assignment_dir e a) rel)"
    by (simp add: exists_def fr)
  with assms(1) have "filter (\<lambda>f. \<not> exists fs1 (pjoin (get_assignment_dir e a) f)) (files_to_submit i) \<noteq> []"
    by (auto simp: filter_empty_conv)
  with Inr fr show ?thesis
    by (simp add: package_files_def Let_def)
qed

lemma cmd_package_loaded:
  assumes "files w (config_file e) = Some (File (ConfigJson config) t1)"
    and "map_of config ''student_id'' = Some sid"
    and "map_of config ''student_name'' = Some sname"
    and "files w (metadata_file e) = Some (File (MetadataJson metadata) t2)"
    and "map_of metadata a = Some i"
  shows "cmd_package e a w
         = package_files e a sid sname i
             (say [Info ''Packaging for submission'' [a], Info ''='' [''70'']] w)"
  using assms by (simp add: cmd_package_def load_config_ok load_metadata_ok lookup_key_def)

lemma basename_no_slash: "CHR ''/'' \<notin> set (basename s)"
  by (auto simp: basename_def dest: set_takeWhileD)

lemma basename_suffix: "\<exists>d. s = d @ basename s \<and> (d = [] \<or> last d = CHR ''/'')"
proof -
  let ?P = "\<lambda>c. c \<noteq> CHR ''/''"
  let ?d = "rev (dropWhile ?P (rev s))"
  have "s = ?d @ basename s"
    unfolding basename_def by (metis rev_append rev_rev_ident takeWhile_dropWhile_id)
  moreover have "?d = [] \<or> last ?d = CHR ''/''"
    using hd_dropWhile [of ?P "rev s"] by (auto simp: last_rev)
  ultimately show ?thesis by blast
qed

lemma zip_entries_regular:
  assumes "snd (zip_entries fs items) = None"
    and "\<forall>(s, arc) \<in> set items. (\<exists>c t. fs s = Some (File c t)) \<and> basename arc \<noteq> []"
  shows "list_all2 (\<lambda>(s, arc) (name, c). name = basename arc \<and> (\<exists>t. fs s = Some (File c t)))
           items (fst (zip_entries fs items))"
  using assms
proof (induction items)
  case Nil
  then show ?case by simp
next
  case (Cons it items)
  obtain s arc where it: "it = (s, arc)" by (cases it)
  with Cons.prems obtain c t where c: "fs s = Some (File c t)" and b: "basename arc \<noteq> []" by auto
  obtain ens r where z: "zip_entries fs items = (ens, r)" by (cases "zip_entries fs items")
  from Cons.prems(1) it c z have w: "zip_write fs s (basename arc) = Inr (basename arc, c)"
    and r: "r = None"
    using b by (auto simp: zip_write_def st_mtime_def Let_def split: option.splits sum.splits)
  from Cons.IH z r Cons.prems(2)
  have "list_all2 (\<lambda>(s, arc) (name, c). name = basename arc \<and> (\<exists>t. fs s = Some (File c t)))
          items ens" by simp
  with it c w z show ?case by simp
qed

subsection \<open>Unknown assignment ids\<close>

text \<open>
  Claim C3: for an assignment id that is not in the metadata, \<open>info\<close>, \<open>setup\<close> and
  \<open>package\<close> exit with a non-zero status and print the list of valid ids. On the example
  repository with the unknown id A9 all three exit with status 1, but only \<open>info\<close> prints
  the valid ids: \<open>setup\<close> and \<open>package\<close> print the line naming the invalid assignment and
  nothing else.
\<close>

theorem unknown_assignment_listing:
  "fst (cmd_info example_env ''A9'' example_world) = Exit 1
   \<and> out (snd (cmd_info example_env ''A9'' example_world))
       = [MsgInvalidAssignment ''A9'', MsgValidAssignments [''A3'']]
   \<and> fst (cmd_setup example_env ''A9'' False example_world) = Exit 1
   \<and> out (snd (cmd_setup example_env ''A9'' False example_world)) = [MsgInvalidAssignment ''A9'']
   \<and> fst (cmd_package example_env ''A9'' example_world) = Exit 1
   \<and> out (snd (cmd_package example_env ''A9'' example_world)) = [MsgInvalidAssignment ''A9'']"
  by code_simp

subsection \<open>The version-control probe\<close>

text \<open>
  Claim C4: the probe classifies by the tool's output, and on tool absence, execution
  failure or timeout falls back to \<open>unknown\<close> with a relative age. The exit status of git
  is never read: a run of git that fails with any status and prints nothing on standard
  output (as git does outside a repository, where it exits with 128 and writes to standard
  error) is classified \<open>unmodified\<close>, whatever the file; the fallback is not taken.
\<close>

theorem check_git_status_ignores_returncode:
  "check_git_status (e\<lparr>git := \<lambda>fs args. Completed returncode [] err\<rparr>) fs file_path
     = Inr (only_status Unmodified)"
  by (simp add: check_git_status_def strip_def)

subsection \<open>The interrupt handler of main\<close>

text \<open>
  Claim C8, as stated: an interrupt is turned into a clean exit that is not treated as a
  failure. It fails where the process status is concerned: an interrupt at the first
  prompt of \<open>config\<close> ends the process with a status other than 0.
\<close>

theorem interrupt_exit_status_counterexample:
  "fst (run_command example_env CmdConfig interrupted_world) = Raise KeyboardInterrupt
   \<and> fst (main example_env CmdConfig interrupted_world) \<noteq> 0"
  by code_simp

text \<open>
  Claim C8, amended: for every command, a KeyboardInterrupt that leaves the command is
  caught in main, the cancellation message is printed after whatever the command had
  printed, and the process exits with status 1, the status of a fatal error.
\<close>

theorem interrupt_exits_with_status_1:
  "fst (run_command e c w) = Raise KeyboardInterrupt \<Longrightarrow>
     main e c w = (1, say [MsgCancelled] (snd (run_command e c w)))"
  by (cases "run_command e c w") (auto simp: main_def run_command_def)

theorem interrupt_exits_with_status_1_witness:
  "fst (run_command example_env CmdConfig interrupted_world) = Raise KeyboardInterrupt
   \<and> main example_env CmdConfig interrupted_world
       = (1, say [MsgCancelled] (snd (run_command example_env CmdConfig interrupted_world)))"
proof -
  have h: "fst (run_command example_env CmdConfig interrupted_world) = Raise KeyboardInterrupt"
    by code_simp
  from h interrupt_exits_with_status_1 [OF h] show ?thesis by simp
qed

subsection \<open>package with a missing file\<close>

text \<open>
  Claim C1: a run of \<open>package\<close> in which a declared submission file is absent from the
  assignment directory exits with a fatal error and never creates or overwrites the
  archive. Stated for main: whenever the metadata holds the assignment and one of its
  declared files is absent (a path of the assignment directory, so not the output
  directory itself), the exit status is 1 and the archive path, for any student id and
  name that give a canonical path, holds afterwards what it held before: nothing, or the
  previous archive. The repository root and the path of the absent file are canonical,
  so the absent file is not the output directory under another name.
\<close>

theorem package_missing_file_keeps_archive:
  assumes root: "canonical (root_dir e)"
    and meta: "files w (metadata_file e) = Some (File (MetadataJson metadata) t)"
    and i: "map_of metadata a = Some i"
    and rel: "rel \<in> set (files_to_submit i)"
    and plain: "canonical (pjoin (get_assignment_dir e a) rel)"
    and missing: "\<not> exists (files w) (pjoin (get_assignment_dir e a) rel)"
    and inside: "pjoin (get_assignment_dir e a) rel \<noteq> output_dir e"
  shows "fst (main e (CmdPackage a) w) = 1
         \<and> (\<forall>student_id student_name.
               canonical (pjoin (output_dir e) (zip_filename student_id student_name a)) \<longrightarrow>
               files (snd (main e (CmdPackage a) w))
                     (pjoin (output_dir e) (zip_filename student_id student_name a))
               = files w (pjoin (output_dir e) (zip_filename student_id student_name a)))"
proof -
  have key: "(fst (cmd_package e a w) = Exit 1 \<or> (\<exists>x. fst (cmd_package e a w) = Raise x))
             \<and> (\<forall>p. p \<noteq> output_dir e \<longrightarrow> files (snd (cmd_package e a w)) p = files w p)"
  proof -
    consider (ret) c where "load_config e w = (Return c, w)"
      | (raise) x where "load_config e w = (Raise x, w)"
      | (exit) ms where "load_config e w = (Exit 1, say ms w)"
      using load_config_cases [of e w] by blast
    then show ?thesis
    proof cases
      case (ret c)
      consider (r1) x where "lookup_key c ''student_id'' w = (Raise x, w)"
        | (r2) sid x where "lookup_key c ''student_id'' w = (Return sid, w)"
            "lookup_key c ''student_name'' w = (Raise x, w)"
        | (r3) sid sname where "lookup_key c ''student_id'' w = (Return sid, w)"
            "lookup_key c ''student_name'' w = (Return sname, w)"
        using lookup_key_cases [of c "''student_id''" w] lookup_key_cases [of c "''student_name''" w]
        by blast
      then show ?thesis
      proof cases
        case r1
        with ret meta i show ?thesis by (simp add: cmd_package_def load_metadata_ok)
      next
        case r2
        with ret meta i show ?thesis by (simp add: cmd_package_def load_metadata_ok)
      next
        case r3
        let ?w1 = "say [Info ''Packaging for submission'' [a], Info ''='' [''70'']] w"
        have "\<not> exists (files ?w1) (pjoin (get_assignment_dir e a) rel)" using missing by simp
        from package_files_missing [OF rel this inside, of sid sname]
        have "(fst (package_files e a sid sname i ?w1) = Exit 1
                \<or> (\<exists>x. fst (package_files e a sid sname i ?w1) = Raise x))
              \<and> (\<forall>p. p \<noteq> output_dir e \<longrightarrow> files (snd (package_files e a sid sname i ?w1)) p = files w p)"
          by simp
        moreover have "cmd_package e a w = package_files e a sid sname i ?w1"
          using ret meta i r3 by (simp add: cmd_package_def load_metadata_ok)
        ultimately show ?thesis by simp
      qed
    next
      case (raise x)
      then show ?thesis by (simp add: cmd_package_def)
    next
      case (exit ms)
      then show ?thesis by (simp add: cmd_package_def)
    qed
  qed
  obtain r w' where r: "cmd_package e a w = (r, w')" by (cases "cmd_package e a w")
  with key have "r = Exit 1 \<or> (\<exists>x. r = Raise x)" and fr: "\<forall>p. p \<noteq> output_dir e \<longrightarrow> files w' p = files w p"
    by auto
  then have "fst (main e (CmdPackage a) w) = 1 \<and> files (snd (main e (CmdPackage a) w)) = files w'"
    using r by (auto simp: main_def run_command_def)
  with fr zip_path_neq_output_dir show ?thesis by simp
qed

theorem package_missing_file_keeps_archive_witness:
  "fst (main example_env (CmdPackage ''A3'') missing_file_world) = 1
   \<and> files (snd (main example_env (CmdPackage ''A3'') missing_file_world))
            (pjoin (output_dir example_env) (zip_filename ''2021001'' ''Zhang'' ''A3''))
      = files missing_file_world
            (pjoin (output_dir example_env) (zip_filename ''2021001'' ''Zhang'' ''A3''))"
proof -
  have r: "canonical (root_dir example_env)"
    by code_simp
  have 1: "files missing_file_world (metadata_file example_env)
             = Some (File (MetadataJson example_metadata) example_time)"
    by code_simp
  have 2: "map_of example_metadata ''A3'' = Some example_info"
    by (simp add: example_metadata_def)
  have 3: "''src/Solver.java'' \<in> set (files_to_submit example_info)"
    by code_simp
  have c: "canonical (pjoin (get_assignment_dir example_env ''A3'') ''src/Solver.java'')"
    by code_simp
  have 4: "\<not> exists (files missing_file_world)
              (pjoin (get_assignment_dir example_env ''A3'') ''src/Solver.java'')"
    by code_simp
  have 5: "pjoin (get_assignment_dir example_env ''A3'') ''src/Solver.java'' \<noteq> output_dir example_env"
    by code_simp
  have z: "canonical (pjoin (output_dir example_env) (zip_filename ''2021001'' ''Zhang'' ''A3''))"
    by code_simp
  from package_missing_file_keeps_archive [OF r 1 2 3 c 4 5] z show ?thesis by blast
qed

subsection \<open>package creates the output directory first\<close>

text \<open>
  Claim C5, as stated: the output directory is created only after all declared files have
  been verified present, and a run that aborts on a missing file leaves the output
  directory unchanged. It fails on the example repository without \<open>src/Solver.java\<close>:
  the output directory does not exist before the run, the run aborts with status 1, and
  the output directory exists afterwards.
\<close>

theorem output_dir_created_counterexample:
  "\<not> exists (files missing_file_world) (output_dir example_env)
   \<and> fst (cmd_package example_env ''A3'' missing_file_world) = Exit 1
   \<and> exists (files (snd (cmd_package example_env ''A3'' missing_file_world))) (output_dir example_env)"
  by code_simp

text \<open>
  Claim C5, amended: \<open>package\<close> creates the output directory (if needed) before it checks
  the declared submission files. A run that aborts because a submission file is missing
  exits with status 1 and leaves the file system as it was, except that the output
  directory now exists if it did not before: every other canonical path holds what it
  held. The repository root and the path of the missing file are canonical, so the
  missing file is not the output directory under another name.
\<close>

theorem package_creates_output_dir_first:
  assumes root: "canonical (root_dir e)"
    and cfg: "files w (config_file e) = Some (File (ConfigJson config) t1)"
    and sid: "map_of config ''student_id'' = Some sid"
    and sname: "map_of config ''student_name'' = Some sname"
    and meta: "files w (metadata_file e) = Some (File (MetadataJson metadata) t2)"
    and i: "map_of metadata a = Some i"
    and rel: "rel \<in> set (files_to_submit i)"
    and plain: "canonical (pjoin (get_assignment_dir e a) rel)"
    and missing: "\<not> exists (files w) (pjoin (get_assignment_dir e a) rel)"
    and inside: "pjoin (get_assignment_dir e a) rel \<noteq> output_dir e"
    and mk: "is_dir (files w) (output_dir e)
             \<or> (\<not> exists (files w) (output_dir e) \<and> is_dir (files w) (root_dir e))"
  shows "fst (cmd_package e a w) = Exit 1
         \<and> files (snd (cmd_package e a w)) (output_dir e)
             = (if is_dir (files w) (output_dir e) then files w (output_dir e)
                else Some (Dir (now e)))
         \<and> (\<forall>p. canonical p \<and> p \<noteq> output_dir e \<longrightarrow>
                files (snd (cmd_package e a w)) p = files w p)"
proof -
  let ?w1 = "say [Info ''Packaging for submission'' [a], Info ''='' [''70'']] w"
  let ?fs1 = "if is_dir (files w) (output_dir e) then files w
              else (files w)(output_dir e \<mapsto> Dir (now e))"
  have mkd: "mkdir_exist_ok e (output_dir e) (files ?w1) = Inr ?fs1"
    using mk by (auto simp: mkdir_exist_ok_eq parent_output_dir is_dir_def exists_def
                      split: option.splits node.splits)
  have "\<not> exists ?fs1 (pjoin (get_assignment_dir e a) rel)"
    using missing inside by (simp add: exists_def)
  with rel have "filter (\<lambda>f. \<not> exists ?fs1 (pjoin (get_assignment_dir e a) f)) (files_to_submit i) \<noteq> []"
    by (auto simp: filter_empty_conv)
  with mkd have "fst (package_files e a sid sname i ?w1) = Exit 1
                 \<and> files (snd (package_files e a sid sname i ?w1)) = ?fs1"
    by (simp add: package_files_def Let_def)
  with cmd_package_loaded [OF cfg sid sname meta i] show ?thesis by simp
qed

theorem package_creates_output_dir_first_witness:
  "fst (cmd_package example_env ''A3'' missing_file_world) = Exit 1
   \<and> files (snd (cmd_package example_env ''A3'' missing_file_world)) (output_dir example_env)
       = Some (Dir (now example_env))
   \<and> files (snd (cmd_package example_env ''A3'' missing_file_world))
         (pjoin (get_assignment_dir example_env ''A2'') ''src/CFGBuilder.java'')
       = files missing_file_world
           (pjoin (get_assignment_dir example_env ''A2'') ''src/CFGBuilder.java'')"
proof -
  have 1: "files missing_file_world (config_file example_env)
             = Some (File (ConfigJson [(''student_id'', ''2021001''), (''student_name'', ''Zhang'')]) example_time)"
    by code_simp
  have 2: "map_of [(''student_id'', ''2021001''), (''student_name'', ''Zhang'')] ''student_id''
             = Some ''2021001''"
    by simp
  have 3: "map_of [(''student_id'', ''2021001''), (''student_name'', ''Zhang'')] ''student_name''
             = Some ''Zhang''"
    by simp
  have 4: "files missing_file_world (metadata_file example_env)
             = Some (File (MetadataJson example_metadata) example_time)"
    by code_simp
  have 5: "map_of example_metadata ''A3'' = Some example_info"
    by (simp add: example_metadata_def)
  have 6: "''src/Solver.java'' \<in> set (files_to_submit example_info)"
    by code_simp
  have 7: "\<not> exists (files missing_file_world)
              (pjoin (get_assignment_dir example_env ''A3'') ''src/Solver.java'')"
    by code_simp
  have 8: "pjoin (get_assignment_dir example_env ''A3'') ''src/Solver.java'' \<noteq> output_dir example_env"
    by code_simp
  have r: "canonical (root_dir example_env)"
    by code_simp
  have c: "canonical (pjoin (get_assignment_dir example_env ''A3'') ''src/Solver.java'')"
    by code_simp
  have 9: "\<not> is_dir (files missing_file_world) (output_dir example_env)"
    by code_simp
  have 10: "\<not> exists (files missing_file_world) (output_dir example_env)
            \<and> is_dir (files missing_file_world) (root_dir example_env)"
    by code_simp
  from 10 have 11: "is_dir (files missing_file_world) (output_dir example_env)
      \<or> (\<not> exists (files missing_file_world) (output_dir example_env)
          \<and> is_dir (files missing_file_world) (root_dir example_env))"
    by blast
  have o: "canonical (pjoin (get_assignment_dir example_env ''A2'') ''src/CFGBuilder.java'')
           \<and> pjoin (get_assignment_dir example_env ''A2'') ''src/CFGBuilder.java''
               \<noteq> output_dir example_env"
    by code_simp
  from package_creates_output_dir_first [OF r 1 2 3 4 5 6 c 7 8 11] 9 o show ?thesis by simp
qed

subsection \<open>The archive of a successful package\<close>

text \<open>
  Claim C6: after a successful run of \<open>package\<close> the archive is the file
  \<open>{student_id}-{student_name}-{assignment}.zip\<close> of the output directory and holds
  exactly one entry per declared submission file, in the declared order, each named by the
  base name of the declared path (what follows its last slash, so a name without a
  slash) and holding the content the source file had when the command was invoked. The declared paths are files: each is a regular file with a base
  name, and none is the archive itself. The repository root, the paths of the declared
  files and the path of the archive are canonical, so that no declared file is the
  archive under another name. A run is successful when the command returns: no declared
  file has a modification time outside the years an archive can record.
\<close>

theorem package_archive_contents:
  assumes ok: "fst (cmd_package e a w) = Return ()"
    and root: "canonical (root_dir e)"
    and archive: "canonical (pjoin (output_dir e) (zip_filename student_id student_name a))"
    and cfg: "files w (config_file e) = Some (File (ConfigJson config) t1)"
    and sid: "map_of config ''student_id'' = Some student_id"
    and sname: "map_of config ''student_name'' = Some student_name"
    and meta: "files w (metadata_file e) = Some (File (MetadataJson metadata) t2)"
    and i: "map_of metadata a = Some i"
    and regular: "\<forall>rel \<in> set (files_to_submit i).
                    canonical (pjoin (get_assignment_dir e a) rel)
                    \<and> (\<exists>c t. files w (pjoin (get_assignment_dir e a) rel) = Some (File c t))
                    \<and> basename rel \<noteq> []
                    \<and> pjoin (get_assignment_dir e a) rel
                        \<noteq> pjoin (output_dir e) (zip_filename student_id student_name a)"
  shows "\<exists>entries.
           files (snd (cmd_package e a w))
                 (pjoin (output_dir e) (student_id @ ''-'' @ student_name @ ''-'' @ a @ ''.zip''))
             = Some (File (ZipArchive entries) (now e))
           \<and> list_all2 (\<lambda>rel (name, c). name = basename rel
                           \<and> CHR ''/'' \<notin> set name
                           \<and> (\<exists>d. rel = d @ name \<and> (d = [] \<or> last d = CHR ''/''))
                           \<and> (\<exists>t. files w (pjoin (get_assignment_dir e a) rel) = Some (File c t)))
                (files_to_submit i) entries"
proof -
  let ?w1 = "say [Info ''Packaging for submission'' [a], Info ''='' [''70'']] w"
  let ?dir = "get_assignment_dir e a"
  let ?zip = "pjoin (output_dir e) (zip_filename student_id student_name a)"
  have pk: "cmd_package e a w = package_files e a student_id student_name i ?w1"
    by (rule cmd_package_loaded [OF cfg sid sname meta i])
  with ok have ok1: "fst (package_files e a student_id student_name i ?w1) = Return ()" by simp
  then obtain fs1 where mk: "mkdir_exist_ok e (output_dir e) (files w) = Inr fs1"
    by (cases "mkdir_exist_ok e (output_dir e) (files w)") (auto simp: package_files_def)
  have src1: "fs1 (pjoin ?dir rel) = files w (pjoin ?dir rel)" if "rel \<in> set (files_to_submit i)" for rel
  proof -
    from regular that obtain c t where "files w (pjoin ?dir rel) = Some (File c t)" by blast
    with mk show ?thesis by (auto simp: mkdir_exist_ok_eq exists_def split: if_splits)
  qed
  have present: "\<forall>rel \<in> set (files_to_submit i). exists fs1 (pjoin ?dir rel)"
    using regular src1 by (auto simp: exists_def)
  then have all: "filter (\<lambda>f. exists fs1 (pjoin ?dir f)) (files_to_submit i) = files_to_submit i"
    and none: "filter (\<lambda>f. \<not> exists fs1 (pjoin ?dir f)) (files_to_submit i) = []"
    by (simp_all add: filter_empty_conv)
  let ?items = "map (\<lambda>rel. (pjoin ?dir rel, rel)) (files_to_submit i)"
  from ok1 mk all none obtain fs2 where op: "open_w e ?zip (Blob []) (now e) fs1 = Inr fs2"
    by (cases "open_w e ?zip (Blob []) (now e) fs1")
       (auto simp: package_files_def Let_def write_zip_def)
  then have fs2: "fs2 = fs1(?zip \<mapsto> File (Blob []) (now e))"
    by (auto simp: open_w_def split: option.splits node.splits if_splits)
  have src2: "fs2 (pjoin ?dir rel) = files w (pjoin ?dir rel)" if "rel \<in> set (files_to_submit i)" for rel
    using that regular src1 fs2 by auto
  have reg2: "\<forall>(s, arc) \<in> set ?items. (\<exists>c t. fs2 s = Some (File c t)) \<and> basename arc \<noteq> []"
    using regular src2 by auto
  have zn: "snd (zip_entries fs2 ?items) = None"
    using ok1 mk all none op
    by (auto simp: package_files_def Let_def write_zip_def split: prod.splits option.splits)
  from zip_entries_regular [OF zn reg2] zn
  obtain entries where z: "zip_entries fs2 ?items = (entries, None)"
    and ents: "list_all2 (\<lambda>(s, arc) (name, c). name = basename arc \<and> (\<exists>t. fs2 s = Some (File c t)))
                 ?items entries"
    by (cases "zip_entries fs2 ?items") auto
  have "files (snd (package_files e a student_id student_name i ?w1)) ?zip
          = Some (File (ZipArchive entries) (now e))"
    using mk all none op z
    by (simp add: package_files_def Let_def write_zip_def stat_size_def)
  moreover have "list_all2 (\<lambda>rel (name, c). name = basename rel
                     \<and> CHR ''/'' \<notin> set name
                     \<and> (\<exists>d. rel = d @ name \<and> (d = [] \<or> last d = CHR ''/''))
                     \<and> (\<exists>t. files w (pjoin ?dir rel) = Some (File c t)))
                   (files_to_submit i) entries"
  proof -
    from ents have "list_all2 (\<lambda>rel (name, c). name = basename rel
                       \<and> (\<exists>t. fs2 (pjoin ?dir rel) = Some (File c t)))
                   (files_to_submit i) entries"
      by (simp add: list_all2_map1 case_prod_unfold)
    then show ?thesis
      by (rule list.rel_mono_strong) (auto simp: src2 basename_no_slash basename_suffix)
  qed
  ultimately show ?thesis using pk by (auto simp: zip_filename_def)
qed

theorem package_archive_contents_witness:
  "fst (cmd_package example_env ''A3'' example_world) = Return ()
   \<and> (\<exists>entries.
         files (snd (cmd_package example_env ''A3'' example_world))
               (pjoin (output_dir example_env) (''2021001'' @ ''-'' @ ''Zhang'' @ ''-'' @ ''A3'' @ ''.zip''))
           = Some (File (ZipArchive entries) (now example_env))
         \<and> list_all2 (\<lambda>rel (name, c). name = basename rel
                         \<and> CHR ''/'' \<notin> set name
                         \<and> (\<exists>d. rel = d @ name \<and> (d = [] \<or> last d = CHR ''/''))
                         \<and> (\<exists>t. files example_world (pjoin (get_assignment_dir example_env ''A3'') rel)
                                   = Some (File c t)))
              (files_to_submit example_info) entries)"
proof -
  have 0: "fst (cmd_package example_env ''A3'' example_world) = Return ()"
    by code_simp
  have 1: "files example_world (config_file example_env)
             = Some (File (ConfigJson [(''student_id'', ''2021001''), (''student_name'', ''Zhang'')]) example_time)"
    by code_simp
  have 2: "map_of [(''student_id'', ''2021001''), (''student_name'', ''Zhang'')] ''student_id''
             = Some ''2021001''"
    by simp
  have 3: "map_of [(''student_id'', ''2021001''), (''student_name'', ''Zhang'')] ''student_name''
             = Some ''Zhang''"
    by simp
  have 4: "files example_world (metadata_file example_env)
             = Some (File (MetadataJson example_metadata) example_time)"
    by code_simp
  have 5: "map_of example_metadata ''A3'' = Some example_info"
    by (simp add: example_metadata_def)
  have r: "canonical (root_dir example_env)"
    by code_simp
  have z: "canonical (pjoin (output_dir example_env) (zip_filename ''2021001'' ''Zhang'' ''A3''))"
    by code_simp
  have p: "canonical (pjoin (get_assignment_dir example_env ''A3'') ''src/Solver.java'')"
    by code_simp
  have a: "files example_world (pjoin (get_assignment_dir example_env ''A3'') ''src/Solver.java'')
             = Some (File (Blob ''solver'') (example_time + 7))"
    by code_simp
  have b: "basename ''src/Solver.java'' \<noteq> []"
    by code_simp
  have c: "pjoin (get_assignment_dir example_env ''A3'') ''src/Solver.java''
             \<noteq> pjoin (output_dir example_env) (zip_filename ''2021001'' ''Zhang'' ''A3'')"
    by code_simp
  from p a b c have 6: "\<forall>rel \<in> set (files_to_submit example_info).
       canonical (pjoin (get_assignment_dir example_env ''A3'') rel)
       \<and> (\<exists>c t. files example_world (pjoin (get_assignment_dir example_env ''A3'') rel) = Some (File c t))
       \<and> basename rel \<noteq> []
       \<and> pjoin (get_assignment_dir example_env ''A3'') rel
           \<noteq> pjoin (output_dir example_env) (zip_filename ''2021001'' ''Zhang'' ''A3'')"
    by (simp add: example_info_def)
  from 0 package_archive_contents [OF 0 r z 1 2 3 4 5 6] show ?thesis by blast
qed

subsection \<open>submit: tests, then the package\<close>

lemma cmd_test_cases:
  "fst (cmd_test e a verbose w0) = Return True \<or> fst (cmd_test e a verbose w0) = Return False
   \<or> fst (cmd_test e a verbose w0) = Exit 1
   \<or> fst (cmd_test e a verbose w0) = Raise KeyboardInterrupt"
  by (auto simp: cmd_test_def Let_def is_Exception_def split: proc.splits)

lemma cmd_test_success_iff:
  assumes "exists (files w0) (get_assignment_dir e a)"
    and "exists (files w0) (gradle_wrapper e a)"
  shows "fst (cmd_test e a verbose w0) = Return True
         \<longleftrightarrow> (\<exists>out err. fst (run_gradle e a verbose (files w0)) = Completed 0 out err)"
  using assms by (auto simp: cmd_test_def Let_def split: proc.splits)

text \<open>
  Claim C2: \<open>submit\<close> invokes the packager if and only if the test runner reports
  success. Let the test runner, started after the two header lines of \<open>submit\<close>, end
  with the outcome \<open>t\<close> in the world \<open>w1\<close>. If \<open>t\<close> is the return value True, the rest of
  \<open>submit\<close> is exactly \<open>package\<close> run in \<open>w1\<close> after one line of output. In every
  other case the process ends with status 1 and the world it leaves is \<open>w1\<close>, with the two
  lines about failed tests when the test runner returned False: the packager has not
  run. And when the assignment directory and the wrapper exist, the test runner returns
  True exactly when the child process completes with exit status 0, so a child that exits
  non-zero, or that cannot be run, blocks the packaging.
\<close>

theorem submit_packages_iff_tests_pass:
  assumes t: "cmd_test e a verbose (say [Info ''Submitting'' [a], Info ''='' [''70'']] w) = (t, w1)"
  shows "(t = Return True \<longrightarrow>
            cmd_submit e a verbose w
              = cmd_package e a (say [Info ''Tests passed! Proceeding with packaging...'' []] w1))
         \<and> (t \<noteq> Return True \<longrightarrow>
              fst (main e (CmdSubmit a verbose) w) = 1
              \<and> snd (cmd_submit e a verbose w)
                  = (if t = Return False
                     then say [Info ''Tests failed. Cannot package for submission.'' [],
                               Info ''Fix the failing tests and try again.'' []] w1
                     else w1))
         \<and> (exists (files w) (get_assignment_dir e a) \<and> exists (files w) (gradle_wrapper e a) \<longrightarrow>
              (t = Return True
                 \<longleftrightarrow> (\<exists>out err. fst (run_gradle e a verbose (files w)) = Completed 0 out err)))"
proof -
  let ?w0 = "say [Info ''Submitting'' [a], Info ''='' [''70'']] w"
  from cmd_test_cases [of e a verbose ?w0] t
  have cases: "t = Return True \<or> t = Return False \<or> t = Exit 1 \<or> t = Raise KeyboardInterrupt"
    by simp
  have 1: "t = Return True \<longrightarrow>
            cmd_submit e a verbose w
              = cmd_package e a (say [Info ''Tests passed! Proceeding with packaging...'' []] w1)"
    using t by (simp add: cmd_submit_def)
  have 2: "t \<noteq> Return True \<longrightarrow>
              fst (main e (CmdSubmit a verbose) w) = 1
              \<and> snd (cmd_submit e a verbose w)
                  = (if t = Return False
                     then say [Info ''Tests failed. Cannot package for submission.'' [],
                               Info ''Fix the failing tests and try again.'' []] w1
                     else w1)"
    using t cases by (auto simp: cmd_submit_def main_def run_command_def)
  have 3: "exists (files w) (get_assignment_dir e a) \<and> exists (files w) (gradle_wrapper e a) \<longrightarrow>
              (t = Return True
                 \<longleftrightarrow> (\<exists>out err. fst (run_gradle e a verbose (files w)) = Completed 0 out err))"
  proof
    assume h: "exists (files w) (get_assignment_dir e a) \<and> exists (files w) (gradle_wrapper e a)"
    then have "exists (files ?w0) (get_assignment_dir e a)" "exists (files ?w0) (gradle_wrapper e a)"
      by simp_all
    from cmd_test_success_iff [OF this, of verbose] t
    show "t = Return True
            \<longleftrightarrow> (\<exists>out err. fst (run_gradle e a verbose (files w)) = Completed 0 out err)"
      by simp
  qed
  from 1 2 3 show ?thesis by blast
qed

theorem submit_packages_iff_tests_pass_witness:
  "fst (cmd_test failing_env ''A3'' False
          (say [Info ''Submitting'' [''A3''], Info ''='' [''70'']] tested_world)) = Return False
   \<and> fst (main failing_env (CmdSubmit ''A3'' False) tested_world) = 1
   \<and> files (snd (cmd_submit failing_env ''A3'' False tested_world)) = files tested_world
   \<and> fst (cmd_test example_env ''A3'' False
          (say [Info ''Submitting'' [''A3''], Info ''='' [''70'']] tested_world)) = Return True
   \<and> cmd_submit example_env ''A3'' False tested_world
       = cmd_package example_env ''A3''
           (say [Info ''Tests passed! Proceeding with packaging...'' []]
              (snd (cmd_test example_env ''A3'' False
                      (say [Info ''Submitting'' [''A3''], Info ''='' [''70'']] tested_world))))"
proof -
  let ?w0 = "say [Info ''Submitting'' [''A3''], Info ''='' [''70'']] tested_world"
  have f: "fst (cmd_test failing_env ''A3'' False ?w0) = Return False"
    by code_simp
  have ff: "files (snd (cmd_test failing_env ''A3'' False ?w0)) = files tested_world"
    by (simp add: cmd_test_def Let_def failing_env_def run_gradle_def example_env_def)
  have p: "fst (cmd_test example_env ''A3'' False ?w0) = Return True"
    by code_simp
  from f have tf: "cmd_test failing_env ''A3'' False ?w0
                     = (Return False, snd (cmd_test failing_env ''A3'' False ?w0))"
    by (metis prod.collapse)
  from p have tp: "cmd_test example_env ''A3'' False ?w0
                     = (Return True, snd (cmd_test example_env ''A3'' False ?w0))"
    by (metis prod.collapse)
  from submit_packages_iff_tests_pass [OF tf] submit_packages_iff_tests_pass [OF tp] f p ff
  show ?thesis by simp
qed

subsection \<open>setup: what the summary counts\<close>

lemma failure_reports_simps [simp]:
  "failure_reports [] = 0"
  "failure_reports (ms @ ns) = failure_reports ms + failure_reports ns"
  "failure_reports (MsgSourceNotFound # ms) = Suc (failure_reports ms)"
  "failure_reports (MsgCopyFailed x # ms) = Suc (failure_reports ms)"
  "failure_reports (Info s vs # ms) = failure_reports ms"
  "failure_reports (MsgSkipped # ms) = failure_reports ms"
  "failure_reports (MsgCopied b # ms) = failure_reports ms"
  "failure_reports (MsgCopiedCount n # ms) = failure_reports ms"
  "failure_reports (MsgSkippedCount n # ms) = failure_reports ms"
  by (simp_all add: failure_reports_def)

lemma failure_reports_summary [simp]: "failure_reports (setup_summary st) = 0"
  by (simp add: setup_summary_def)







subsection \<open>setup: the quit choice\<close>

lemma then_do_assoc:
  "then_do (then_do r f) g = then_do r (\<lambda>x w. then_do (f x w) g)"
  by (cases r) (auto simp: then_do_def split: outcome.splits)

lemma setup_loop_append:
  "setup_loop e a n idx (xs @ ys) st w
     = then_do (setup_loop e a n idx xs st w)
         (\<lambda>st' w'. setup_loop e a n (idx + length xs) ys st' w')"
proof (induction xs arbitrary: idx st w)
  case Nil
  then show ?case by simp
next
  case (Cons d xs)
  have "(\<lambda>st w. setup_loop e a n (Suc idx) (xs @ ys) st w)
          = (\<lambda>st w. then_do (setup_loop e a n (Suc idx) xs st w)
                      (\<lambda>st' w'. setup_loop e a n (Suc idx + length xs) ys st' w'))"
    by (intro ext) (rule Cons.IH)
  then show ?case by (simp add: then_do_assoc)
qed

lemma confirm_overwrite_quit:
  assumes "stdin w = Line c # rest" and "strip (lower c) = ''q''"
  shows "confirm_overwrite st w
           = (Exit 0,
              say [MsgSetupCancelled]
                (say [Info ''This will overwrite your local changes.'' [],
                      Info ''Options:'' [],
                      Info ''y - Yes, overwrite this file'' [],
                      Info ''n - No, skip this file'' [],
                      Info ''a - All, overwrite this and all remaining files'' [],
                      Info ''q - Quit setup'' [],
                      Info ''Your choice [y/N/a/q]: '' []] w \<lparr>stdin := rest\<rparr>))"
  using assms by (simp add: confirm_overwrite_def input_def Let_def)

lemma setup_dep_quit:
  assumes src: "exists (files w) (pjoin (get_assignment_dir e (dep_from d)) (dep_file d))"
    and tgt: "target_status e (files w) (pjoin (get_assignment_dir e a) (dep_file d)) = Inr (Some g)"
    and md: "status g = Modified"
    and nf: "\<not> force_all st"
    and inp: "stdin w = Line c # rest"
    and q: "strip (lower c) = ''q''"
  shows "fst (setup_dep e a n idx d st w) = Exit 0
         \<and> files (snd (setup_dep e a n idx d st w)) = files w
         \<and> stdin (snd (setup_dep e a n idx d st w)) = rest
         \<and> out (snd (setup_dep e a n idx d st w))
             = out w @ [Info ''dependency'' [str_nat idx, str_nat n, basename (dep_file d)],
                        Info ''from, to'' [dep_from d, a],
                        Info [] [],
                        Info ''Status: Target file modified''
                          [case time g of None \<Rightarrow> ''recently'' | Some t \<Rightarrow> t],
                        Info ''This will overwrite your local changes.'' [],
                        Info ''Options:'' [],
                        Info ''y - Yes, overwrite this file'' [],
                        Info ''n - No, skip this file'' [],
                        Info ''a - All, overwrite this and all remaining files'' [],
                        Info ''q - Quit setup'' [],
                        Info ''Your choice [y/N/a/q]: '' [],
                        MsgSetupCancelled]"
proof -
  let ?w2 = "say [Info ''Status: Target file modified''
                    [case time g of None \<Rightarrow> ''recently'' | Some t \<Rightarrow> t]]
               (say [Info ''dependency'' [str_nat idx, str_nat n, basename (dep_file d)],
                     Info ''from, to'' [dep_from d, a], Info [] []] w)"
  have i2: "stdin ?w2 = Line c # rest" using inp by simp
  have "setup_dep e a n idx d st w
          = then_do (confirm_overwrite st ?w2)
              (\<lambda>(go, st) w. if go
                 then perform_copy e (pjoin (get_assignment_dir e (dep_from d)) (dep_file d))
                        (pjoin (get_assignment_dir e a) (dep_file d)) True st w
                 else (Return st, w))"
    using src tgt md nf by (simp add: setup_dep_def Let_def)
  then show ?thesis
    by (simp add: confirm_overwrite_quit [OF i2 q])
qed

text \<open>
  Claim C7: when the prompt for a modified target file receives the quit choice, the
  whole setup ends at once with exit status 0 and no further entry is processed. Let the
  dependency list be \<open>ds1 @ d # ds2\<close>, let the loop over \<open>ds1\<close> end normally in the
  state \<open>st\<close> and the world \<open>w1\<close>, and let \<open>d\<close> have its source, a target that git
  reports as modified, no force-all in effect, and the answer q (in any case, with any
  blanks around it) as the next line of input. Then the process ends with status 0; the
  file system is the one of \<open>w1\<close>, so neither \<open>d\<close> nor any entry of \<open>ds2\<close> has been
  copied; the input after the answer is still unread; and the output is the one of
  \<open>w1\<close> followed by the lines for \<open>d\<close>, the prompt and the cancellation message, with
  nothing about \<open>ds2\<close> and no summary.
\<close>

theorem setup_quit_exits_0:
  assumes meta: "files w (metadata_file e) = Some (File (MetadataJson metadata) t)"
    and i: "map_of metadata a = Some i"
    and deps: "get_deps i = ds1 @ d # ds2"
    and before: "setup_loop e a (length (get_deps i)) 1 ds1
                   \<lparr>success_count = 0, skip_count = 0, force_all = force\<rparr>
                   (say [Info ''Setting up dependencies for'' [a], Info ''='' [''70'']] w)
                 = (Return st, w1)"
    and src: "exists (files w1) (pjoin (get_assignment_dir e (dep_from d)) (dep_file d))"
    and tgt: "target_status e (files w1) (pjoin (get_assignment_dir e a) (dep_file d))
                = Inr (Some g)"
    and md: "status g = Modified"
    and nf: "\<not> force_all st"
    and inp: "stdin w1 = Line c # rest"
    and q: "strip (lower c) = ''q''"
  shows "fst (main e (CmdSetup a force) w) = 0
         \<and> files (snd (main e (CmdSetup a force) w)) = files w1
         \<and> stdin (snd (main e (CmdSetup a force) w)) = rest
         \<and> out (snd (main e (CmdSetup a force) w))
             = out w1 @ [Info ''dependency'' [str_nat (1 + length ds1),
                                              str_nat (length (get_deps i)),
                                              basename (dep_file d)],
                         Info ''from, to'' [dep_from d, a],
                         Info [] [],
                         Info ''Status: Target file modified''
                           [case time g of None \<Rightarrow> ''recently'' | Some t \<Rightarrow> t],
                         Info ''This will overwrite your local changes.'' [],
                         Info ''Options:'' [],
                         Info ''y - Yes, overwrite this file'' [],
                         Info ''n - No, skip this file'' [],
                         Info ''a - All, overwrite this and all remaining files'' [],
                         Info ''q - Quit setup'' [],
                         Info ''Your choice [y/N/a/q]: '' [],
                         MsgSetupCancelled]"
proof -
  let ?n = "length (get_deps i)"
  let ?w0 = "say [Info ''Setting up dependencies for'' [a], Info ''='' [''70'']] w"
  let ?st0 = "\<lparr>success_count = 0, skip_count = 0, force_all = force\<rparr>"
  let ?r = "setup_dep e a ?n (1 + length ds1) d st w1"
  note dq = setup_dep_quit [OF src tgt md nf inp q, of ?n "1 + length ds1"]
  obtain w2 where r: "?r = (Exit 0, w2)"
    using dq by (cases ?r) auto
  have "setup_loop e a ?n 1 (ds1 @ d # ds2) ?st0 ?w0 = (Exit 0, w2)"
    using before r by (simp add: setup_loop_append)
  with deps have loop: "setup_loop e a ?n 1 (get_deps i) ?st0 ?w0 = (Exit 0, w2)" by simp
  have ne: "get_deps i \<noteq> []" using deps by simp
  have "cmd_setup e a force w = (Exit 0, w2)"
    using meta i ne loop by (simp add: cmd_setup_def load_metadata_ok Let_def)
  then have "main e (CmdSetup a force) w = (0, w2)"
    by (simp add: main_def run_command_def)
  moreover from r have "w2 = snd ?r" by simp
  ultimately show ?thesis using dq by simp
qed

theorem setup_quit_exits_0_witness:
  "fst (main modified_env (CmdSetup ''A3'' False) quit_world) = 0
   \<and> files (snd (main modified_env (CmdSetup ''A3'' False) quit_world)) = files quit_world
   \<and> stdin (snd (main modified_env (CmdSetup ''A3'' False) quit_world)) = [Line ''y'']
   \<and> last (out (snd (main modified_env (CmdSetup ''A3'' False) quit_world))) = MsgSetupCancelled"
proof -
  let ?d1 = "\<lparr>dep_from = ''A2'', dep_file = ''src/CFGBuilder.java''\<rparr>"
  let ?d2 = "\<lparr>dep_from = ''A2'', dep_file = ''src/Solver.java''\<rparr>"
  let ?i = "example_info\<lparr>dependencies := Some [?d1, ?d2]\<rparr>"
  let ?st0 = "\<lparr>success_count = 0, skip_count = 0, force_all = False\<rparr>"
  let ?w1 = "say [Info ''Setting up dependencies for'' [''A3''], Info ''='' [''70'']] quit_world"
  let ?g = "\<lparr>status = Modified, commit = Some ''1a2b3c4'', time = Some ''2 days ago'',
             message = Some ''Build the CFG''\<rparr>"
  have 1: "files quit_world (metadata_file modified_env)
             = Some (File (MetadataJson quit_metadata) example_time)"
    by code_simp
  have 2: "map_of quit_metadata ''A3'' = Some ?i"
    by (simp add: quit_metadata_def)
  have 3: "get_deps ?i = [] @ ?d1 # [?d2]"
    by (simp add: get_deps_def)
  have 4: "setup_loop modified_env ''A3'' (length (get_deps ?i)) 1 [] ?st0 ?w1 = (Return ?st0, ?w1)"
    by simp
  have 5: "exists (files ?w1) (pjoin (get_assignment_dir modified_env (dep_from ?d1)) (dep_file ?d1))"
    by code_simp
  have 6: "target_status modified_env (files ?w1)
             (pjoin (get_assignment_dir modified_env ''A3'') (dep_file ?d1)) = Inr (Some ?g)"
    by code_simp
  have 7: "status ?g = Modified"
    by simp
  have 8: "\<not> force_all ?st0"
    by simp
  have 9: "stdin ?w1 = Line '' Q'' # [Line ''y'']"
    by (simp add: quit_world_def)
  have 10: "strip (lower '' Q'') = ''q''"
    by code_simp
  from setup_quit_exits_0 [OF 1 2 3 4 5 6 7 8 9 10] show ?thesis by simp
qed

subsection \<open>config: prompts, defaults and the saved record\<close>

lemma ask_line:
  assumes "stdin w = Line s # rest"
  shows "ask label dflt w
           = (Return (if strip s = [] then dflt else strip s),
              (say [Prompt (if dflt \<noteq> [] then label @ '' ['' @ dflt @ '']: '' else label @ '': '')] w)
                \<lparr>stdin := rest\<rparr>)"
  using assms by (auto simp: ask_def input_def Let_def)

lemma save_config_ok:
  assumes "(\<exists>c t. files w (config_file e) = Some (File c t))
           \<or> (files w (config_file e) = None \<and> is_dir (files w) (scripts_dir e))"
  shows "save_config e config w
           = (Return (), w\<lparr>files := (files w)(config_file e \<mapsto> File (ConfigJson config) (now e))\<rparr>)"
  using assms
  by (auto simp: save_config_def open_w_def parent_config_file exists_def is_dir_def
           split: option.splits node.splits)

text \<open>
  Claim C9: \<open>config\<close> shows the previous id and name in its prompts and keeps them on
  empty input; when a field ends up empty it exits with a fatal error and saves nothing;
  otherwise it writes the full record over any prior configuration. Let \<open>prev\<close> be the
  prior configuration (empty when there is no configuration file), and let the user
  answer the two prompts with the lines \<open>l1\<close> and \<open>l2\<close>. Each prompt shows the previous
  value in brackets when there is one, and each field is the answer without the blanks
  around it, or the previous value when nothing else was typed. If a field is empty, the
  command prints that both are required and exits with status 1, and the file system is
  what it was. Otherwise the command returns and the configuration file holds exactly
  the three fields student id, student name and workspace root, whatever it held before.
\<close>

theorem config_prompts_and_saves:
  assumes prior: "(files w (config_file e) = None \<and> prev = [] \<and> is_dir (files w) (scripts_dir e))
                  \<or> (\<exists>t. files w (config_file e) = Some (File (ConfigJson prev) t))"
    and inp: "stdin w = Line l1 # Line l2 # rest"
    and d1: "default_id = get_or_empty prev ''student_id''"
    and d2: "default_name = get_or_empty prev ''student_name''"
    and sid: "student_id = (if strip l1 = [] then default_id else strip l1)"
    and sname: "student_name = (if strip l2 = [] then default_name else strip l2)"
  shows "take 4 (drop (length (out w)) (out (snd (cmd_config e w))))
           = [Info ''Assignment Helper Configuration'' [], Info ''='' [''50''],
              Prompt (if default_id \<noteq> [] then ''Student ID ['' @ default_id @ '']: ''
                      else ''Student ID: ''),
              Prompt (if default_name \<noteq> [] then ''Student Name ['' @ default_name @ '']: ''
                      else ''Student Name: '')]
         \<and> stdin (snd (cmd_config e w)) = rest
         \<and> (if student_id = [] \<or> student_name = []
             then fst (cmd_config e w) = Exit 1
                  \<and> fst (main e CmdConfig w) = 1
                  \<and> files (snd (cmd_config e w)) = files w
                  \<and> drop (length (out w) + 4) (out (snd (cmd_config e w)))
                      = [Info ''Both student ID and name are required'' []]
             else fst (cmd_config e w) = Return ()
                  \<and> fst (main e CmdConfig w) = 0
                  \<and> files (snd (cmd_config e w)) (config_file e)
                      = Some (File (ConfigJson [(''student_id'', student_id),
                                                (''student_name'', student_name),
                                                (''workspace_root'', path_str (root_dir e))])
                                   (now e))
                  \<and> drop (length (out w) + 4) (out (snd (cmd_config e w)))
                      = [Info ''Configuration saved successfully'' [],
                         Info ''Student ID'' [student_id],
                         Info ''Student Name'' [student_name]])"
proof -
  let ?d1 = "get_or_empty prev ''student_id''"
  let ?d2 = "get_or_empty prev ''student_name''"
  let ?w0 = "say [Info ''Assignment Helper Configuration'' [], Info ''='' [''50'']] w"
  let ?p1 = "Prompt (if ?d1 \<noteq> [] then ''Student ID ['' @ ?d1 @ '']: '' else ''Student ID: '')"
  let ?p2 = "Prompt (if ?d2 \<noteq> [] then ''Student Name ['' @ ?d2 @ '']: ''
                     else ''Student Name: '')"
  let ?w1 = "(say [?p1] ?w0)\<lparr>stdin := Line l2 # rest\<rparr>"
  let ?w2 = "(say [?p2] ?w1)\<lparr>stdin := rest\<rparr>"
  have load: "(if exists (files ?w0) (config_file e) then read_config e ?w0 else (Return [], ?w0))
                = (Return prev, ?w0)"
    using prior by (auto simp: exists_def read_config_def)
  have i0: "stdin ?w0 = Line l1 # Line l2 # rest"
    using inp by simp
  have i1: "stdin ?w1 = Line l2 # rest"
    by simp
  have a1: "ask ''Student ID'' ?d1 ?w0 = (Return student_id, ?w1)"
    unfolding sid d1 by (simp add: ask_line [OF i0])
  have a2: "ask ''Student Name'' ?d2 ?w1 = (Return student_name, ?w2)"
    unfolding sname d2 by (simp add: ask_line [OF i1])
  have o2: "out ?w2 = out w @ [Info ''Assignment Helper Configuration'' [], Info ''='' [''50''],
                              ?p1, ?p2]"
    by simp
  have f2: "files ?w2 = files w" and s2: "stdin ?w2 = rest"
    by simp_all
  have body: "cmd_config e w
                = (if student_id = [] \<or> student_name = []
                   then (Exit 1, say [Info ''Both student ID and name are required'' []] ?w2)
                   else then_do (save_config e [(''student_id'', student_id),
                                                (''student_name'', student_name),
                                                (''workspace_root'', path_str (root_dir e))] ?w2)
                          (\<lambda>_ w. (Return (),
                             say [Info ''Configuration saved successfully'' [],
                                  Info ''Student ID'' [student_id],
                                  Info ''Student Name'' [student_name]] w)))"
    unfolding cmd_config_def Let_def load then_do_Return a1 a2 by (rule refl)
  show ?thesis
  proof (cases "student_id = [] \<or> student_name = []")
    case True
    with body have run: "cmd_config e w
                 = (Exit 1, say [Info ''Both student ID and name are required'' []] ?w2)"
      by simp
    have m: "fst (main e CmdConfig w) = 1"
      unfolding main_def run_command_def run by simp
    from True m show ?thesis
      unfolding run d1 d2 by (simp add: o2 f2 s2)
  next
    case False
    let ?config = "[(''student_id'', student_id), (''student_name'', student_name),
                    (''workspace_root'', path_str (root_dir e))]"
    let ?w3 = "?w2\<lparr>files := (files ?w2)(config_file e \<mapsto> File (ConfigJson ?config) (now e))\<rparr>"
    have "(\<exists>c t. files ?w2 (config_file e) = Some (File c t))
            \<or> (files ?w2 (config_file e) = None \<and> is_dir (files ?w2) (scripts_dir e))"
      using prior by auto
    then have sv: "save_config e ?config ?w2 = (Return (), ?w3)"
      by (rule save_config_ok)
    from False body have run: "cmd_config e w
                 = (Return (), say [Info ''Configuration saved successfully'' [],
                                    Info ''Student ID'' [student_id],
                                    Info ''Student Name'' [student_name]] ?w3)"
      by (simp only: sv then_do_Return if_False)
    have m: "fst (main e CmdConfig w) = 0"
      unfolding main_def run_command_def run by simp
    from False m show ?thesis
      unfolding run d1 d2 by simp
  qed
qed

theorem config_prompts_and_saves_witness:
  "take 4 (out (snd (cmd_config example_env config_world)))
     = [Info ''Assignment Helper Configuration'' [], Info ''='' [''50''],
        Prompt ''Student ID [2021001]: '', Prompt ''Student Name [Zhang]: '']
   \<and> fst (cmd_config example_env config_world) = Return ()
   \<and> files (snd (cmd_config example_env config_world)) (config_file example_env)
       = Some (File (ConfigJson [(''student_id'', ''2021001''), (''student_name'', ''Li''),
                                 (''workspace_root'', ''/r'')])
                    (now example_env))"
proof -
  let ?prev = "[(''student_id'', ''2021001''), (''student_name'', ''Zhang'')]"
  have "files config_world (config_file example_env) = Some (File (ConfigJson ?prev) example_time)"
    by code_simp
  then have 1: "(files config_world (config_file example_env) = None \<and> ?prev = []
                   \<and> is_dir (files config_world) (scripts_dir example_env))
                \<or> (\<exists>t. files config_world (config_file example_env) = Some (File (ConfigJson ?prev) t))"
    by blast
  have 2: "stdin config_world = Line [] # Line ''Li '' # []"
    by (simp add: config_world_def)
  have 3: "''2021001'' = get_or_empty ?prev ''student_id''"
    by (simp add: get_or_empty_def)
  have 4: "''Zhang'' = get_or_empty ?prev ''student_name''"
    by (simp add: get_or_empty_def)
  have 5: "''2021001'' = (if strip [] = [] then ''2021001'' else strip [])"
    by (simp add: strip_def)
  have 6: "''Li'' = (if strip ''Li '' = [] then ''Zhang'' else strip ''Li '')"
    by code_simp
  have o: "out config_world = []"
    by (simp add: config_world_def)
  have r: "path_str (root_dir example_env) = ''/r''"
    by code_simp
  from config_prompts_and_saves [OF 1 2 3 4 5 6] o r show ?thesis by simp
qed

end
